theory Spec2Isabelle
  imports Main "HOL-Library.Char_ord" "HOL-Library.List_Lexorder"
begin

section \<open>Data model of \<^verbatim>\<open>arcana/core/analysis.py\<close>\<close>

text \<open>
  Python objects that occur as expression operands, parameter values and column
  bindings. \<open>NoneObj\<close> is \<^verbatim>\<open>None\<close>; Python's \<^verbatim>\<open>True\<close> and \<^verbatim>\<open>False\<close> are the
  integers 1 and 0 (\<^verbatim>\<open>bool\<close> is a subclass of \<^verbatim>\<open>int\<close>, equal to and hashed
  like them), so they are \<open>IntObj 1\<close> and \<open>IntObj 0\<close>. A class object (a data format) is
  \<open>ClassObj name ancestors\<close>: its name and the names of its proper ancestors. An
  \<^verbatim>\<open>Operation\<close> is the frozen attrs class of the source: equal when operator and
  operands are equal. Floats are not modelled.
\<close>

datatype pyobj =
    NoneObj
  | IntObj int
  | StrObj string
  | ClassObj string "string list"
  | Operation string "pyobj list"

definition py_bool :: "bool \<Rightarrow> pyobj" where
  "py_bool b = IntObj (if b then 1 else 0)"

text \<open>
  The members of \<^verbatim>\<open>ColumnSalience\<close> that the sources and the specification name. The
  enum itself (\<^verbatim>\<open>arcana/core/enum.py\<close>) is not among the source files, so the
  validator below takes the members' \<^verbatim>\<open>level\<close> as a parameter.
\<close>

datatype ColumnSalience = primary | raw | publication | supplementary | qa | temp

text \<open>
  Modelled from the spec: the \<^verbatim>\<open>level\<close> of each \<^verbatim>\<open>ColumnSalience\<close> member, which
  \<^verbatim>\<open>arcana/core/enum.py\<close> (not among the source files) defines. The specification
  ranks salience "from \<^verbatim>\<open>temp\<close> up to \<^verbatim>\<open>primary\<close>" with \<^verbatim>\<open>publication\<close> below
  \<^verbatim>\<open>primary\<close>; the validator's message puts \<^verbatim>\<open>raw\<close> with \<^verbatim>\<open>primary\<close>. Only the
  order of the numbers matters. It is used for concrete instances only; the
  theorems hold for every assignment of levels.
\<close>

fun salience_level :: "ColumnSalience \<Rightarrow> int" where
  "salience_level primary = 100"
| "salience_level raw = 90"
| "salience_level publication = 80"
| "salience_level supplementary = 60"
| "salience_level qa = 40"
| "salience_level temp = 0"

text \<open>
  The frozen attrs classes. A callable (\<^verbatim>\<open>method\<close>) and a class (\<^verbatim>\<open>type\<close>,
  \<^verbatim>\<open>defined_in\<close>) are represented by their names; equality of records is equality of
  all fields, as attrs generates it.
\<close>

record ColumnSpec =
  name :: string
  type :: string
  desc :: string
  row_frequency :: string
  salience :: ColumnSalience
  defined_in :: "string list"
  modified :: "(string \<times> pyobj) list"
  mapped_from :: "(string \<times> string) option"

record Parameter =
  name :: string
  type :: string
  desc :: string
  salience :: string
  choices :: "pyobj list option"
  lower_bound :: "int option"
  upper_bound :: "int option"
  defined_in :: "string list"
  modified :: "(string \<times> pyobj) list"
  default :: pyobj
  mapped_from :: "(string \<times> string) option"

record Switch =
  name :: string
  desc :: string
  inputs :: "string list"
  parameters :: "string list"
  method_name :: string
  defined_in :: string

record PipelineBuilder =
  name :: string
  desc :: string
  parameters :: "string list"
  inputs :: "string list"
  outputs :: "string list"
  condition :: pyobj
  switch :: "Switch option"
  method_name :: string
  defined_in :: string

record Check =
  name :: string
  column :: string
  desc :: string
  inputs :: "string list"
  parameters :: "string list"
  salience :: string
  method_name :: string
  defined_in :: string

record SubanalysisSpec =
  name :: string
  desc :: string
  type :: string
  mappings :: "(string \<times> string) list"
  defined_in :: "string list"

record AnalysisSpec =
  space :: string
  column_specs :: "ColumnSpec list"
  pipeline_builders :: "PipelineBuilder list"
  parameters :: "Parameter list"
  switches :: "Switch list"
  checks :: "Check list"
  subanalyses :: "SubanalysisSpec list"

section \<open>Errors\<close>

text \<open>
  Every exception the modelled code raises is a value. The payload of an
  \<^verbatim>\<open>ArcanaDesignError\<close> or \<^verbatim>\<open>ValueError\<close> is what its message is formatted from.
\<close>

datatype design_error =
    NoMatchingBuilders "PipelineBuilder list"
  | MultipleMatchingBuilders "PipelineBuilder list"
  | MatchingConditions string "((pyobj \<times> Switch option) \<times> PipelineBuilder list) list"
  | NeitherInputNorOutput string
  | NotGenerated string
  | UnknownOutputs string "string list"
  | MissingOutputs "string list" string
  | Overwritten "string list"

datatype value_error =
    DuplicateNames "string list"
  | InvalidChoice string
  | OutOfBounds string
  | RedefinedSpace string string

datatype error =
    AttributeError string
  | TypeError string
  | AssertionError
  | IndexError
  | KeyError string
  | StopIteration
  | ValueError value_error
  | ArcanaDesignError design_error

section \<open>Lookup by name in an \<^verbatim>\<open>AnalysisSpec\<close>\<close>

text \<open>
  \<^verbatim>\<open>next(c for c in self.column_specs if c.name == name)\<close>: the first entity of that
  name; on an exhausted generator \<^verbatim>\<open>next\<close> raises \<^verbatim>\<open>StopIteration\<close>, which the
  accessor does not catch.
\<close>

definition next_named :: "('a \<Rightarrow> string) \<Rightarrow> 'a list \<Rightarrow> string \<Rightarrow> error + 'a" where
  "next_named nm xs n =
     (case find (\<lambda>x. nm x = n) xs of None \<Rightarrow> Inl StopIteration | Some x \<Rightarrow> Inr x)"

definition AnalysisSpec_column_spec :: "AnalysisSpec \<Rightarrow> string \<Rightarrow> error + ColumnSpec" where
  "AnalysisSpec_column_spec self n = next_named ColumnSpec.name (column_specs self) n"

definition AnalysisSpec_parameter :: "AnalysisSpec \<Rightarrow> string \<Rightarrow> error + Parameter" where
  "AnalysisSpec_parameter self n = next_named Parameter.name (AnalysisSpec.parameters self) n"

definition AnalysisSpec_pipeline_builder :: "AnalysisSpec \<Rightarrow> string \<Rightarrow> error + PipelineBuilder" where
  "AnalysisSpec_pipeline_builder self n = next_named PipelineBuilder.name (pipeline_builders self) n"

definition AnalysisSpec_switch :: "AnalysisSpec \<Rightarrow> string \<Rightarrow> error + Switch" where
  "AnalysisSpec_switch self n = next_named Switch.name (switches self) n"

definition AnalysisSpec_check :: "AnalysisSpec \<Rightarrow> string \<Rightarrow> error + Check" where
  "AnalysisSpec_check self n = next_named Check.name (checks self) n"

definition AnalysisSpec_subanalysis :: "AnalysisSpec \<Rightarrow> string \<Rightarrow> error + SubanalysisSpec" where
  "AnalysisSpec_subanalysis self n = next_named SubanalysisSpec.name (subanalyses self) n"


section \<open>Validators of \<^verbatim>\<open>AnalysisSpec\<close>\<close>

text \<open>
  \<^verbatim>\<open>unique_names(inst, attr, val)\<close>: the entities whose name occurs more than once in
  the tuple; a \<^verbatim>\<open>ValueError\<close> when there is one.
\<close>

definition unique_names :: "('a \<Rightarrow> string) \<Rightarrow> 'a list \<Rightarrow> error + unit" where
  "unique_names nm val =
     (let names = map nm val;
          duplicates = filter (\<lambda>v. count_list names (nm v) > 1) val
      in if duplicates \<noteq> [] then Inl (ValueError (DuplicateNames (map nm duplicates)))
         else Inr ())"

text \<open>
  \<^verbatim>\<open>sorted_by_cond[(pipe_spec.condition, pipe_spec.switch)].append(pipe_spec)\<close> on a
  \<^verbatim>\<open>defaultdict(list)\<close>: a dictionary keeps its keys in the order of their first
  insertion, so it is an association list.
\<close>

fun dict_append :: "'k \<Rightarrow> 'v \<Rightarrow> ('k \<times> 'v list) list \<Rightarrow> ('k \<times> 'v list) list" where
  "dict_append k v [] = [(k, [v])]"
| "dict_append k v ((k', vs) # rest) =
     (if k' = k then (k', vs @ [v]) # rest else (k', vs) # dict_append k v rest)"

definition sorted_by_cond ::
  "PipelineBuilder list \<Rightarrow> ColumnSpec \<Rightarrow> ((pyobj \<times> Switch option) \<times> PipelineBuilder list) list" where
  "sorted_by_cond pbs column_spec =
     foldl (\<lambda>d pipe_spec.
              if ColumnSpec.name column_spec \<in> set (outputs pipe_spec)
              then dict_append (condition pipe_spec, switch pipe_spec) pipe_spec d
              else d)
           [] pbs"

text \<open>
  The body of the loop of \<^verbatim>\<open>column_specs_validator\<close> for one column. \<open>level\<close> is the
  \<^verbatim>\<open>level\<close> attribute of the \<^verbatim>\<open>ColumnSalience\<close> members.
\<close>

definition validate_column_spec ::
  "(ColumnSalience \<Rightarrow> int) \<Rightarrow> PipelineBuilder list \<Rightarrow> ColumnSpec \<Rightarrow> error + unit" where
  "validate_column_spec level pbs column_spec =
     (let by_cond = sorted_by_cond pbs column_spec;
          duplicated = filter (\<lambda>(c, d). length d > 1) by_cond
      in if duplicated \<noteq> [] then
           Inl (ArcanaDesignError (MatchingConditions (ColumnSpec.name column_spec) duplicated))
         else if by_cond = [] \<and> ColumnSpec.mapped_from column_spec = None then
           (let inputs_to = filter (\<lambda>p. ColumnSpec.name column_spec \<in> set (PipelineBuilder.inputs p)) pbs
            in if inputs_to = [] then
                 Inl (ArcanaDesignError (NeitherInputNorOutput (ColumnSpec.name column_spec)))
               else if level (ColumnSpec.salience column_spec) \<le> level publication then
                 Inl (ArcanaDesignError (NotGenerated (ColumnSpec.name column_spec)))
               else Inr ())
         else Inr ())"

fun column_specs_validator ::
  "(ColumnSalience \<Rightarrow> int) \<Rightarrow> PipelineBuilder list \<Rightarrow> ColumnSpec list \<Rightarrow> error + unit" where
  "column_specs_validator level pbs [] = Inr ()"
| "column_specs_validator level pbs (column_spec # rest) =
     (case validate_column_spec level pbs column_spec of
        Inl e \<Rightarrow> Inl e
      | Inr _ \<Rightarrow> column_specs_validator level pbs rest)"

fun pipeline_builders_validator :: "string list \<Rightarrow> PipelineBuilder list \<Rightarrow> error + unit" where
  "pipeline_builders_validator column_names [] = Inr ()"
| "pipeline_builders_validator column_names (pipeline_builder # rest) =
     (let missing_outputs = filter (\<lambda>out. out \<notin> set column_names) (outputs pipeline_builder)
      in if missing_outputs \<noteq> [] then
           Inl (ArcanaDesignError (UnknownOutputs (PipelineBuilder.name pipeline_builder) missing_outputs))
         else pipeline_builders_validator column_names rest)"

text \<open>
  The \<^verbatim>\<open>__init__\<close> that attrs generates for the frozen class \<^verbatim>\<open>AnalysisSpec\<close>: it
  stores every field, then runs the validators field by field in the order of
  declaration, for one field in the order they were attached (\<^verbatim>\<open>validator=\<close> of the
  field first, the method decorated with \<^verbatim>\<open>@field.validator\<close> second). The argument
  holds the values passed to the constructor.
\<close>

definition and_then :: "error + unit \<Rightarrow> error + 'a \<Rightarrow> error + 'a" where
  "and_then r k = (case r of Inl e \<Rightarrow> Inl e | Inr _ \<Rightarrow> k)"

definition AnalysisSpec_init :: "(ColumnSalience \<Rightarrow> int) \<Rightarrow> AnalysisSpec \<Rightarrow> error + AnalysisSpec" where
  "AnalysisSpec_init level self =
     and_then (unique_names ColumnSpec.name (column_specs self))
    (and_then (column_specs_validator level (pipeline_builders self) (column_specs self))
    (and_then (unique_names PipelineBuilder.name (pipeline_builders self))
    (and_then (pipeline_builders_validator (map ColumnSpec.name (column_specs self)) (pipeline_builders self))
    (and_then (unique_names Parameter.name (AnalysisSpec.parameters self))
    (and_then (unique_names Switch.name (switches self))
    (and_then (unique_names Check.name (checks self))
    (and_then (unique_names SubanalysisSpec.name (subanalyses self))
    (Inr self))))))))"

section \<open>Combining with the base classes in \<^verbatim>\<open>make_class\<close>\<close>


text \<open>
  \<^verbatim>\<open>lst.extend(b for b in base_lst if b.name not in (x.name for x in lst))\<close>: the
  generator is consumed while the list grows, so each test sees what was appended
  before it.
\<close>

definition extend_inherited :: "('a \<Rightarrow> string) \<Rightarrow> 'a list \<Rightarrow> 'a list \<Rightarrow> 'a list" where
  "extend_inherited nm lst base_lst =
     foldl (\<lambda>l b. if nm b \<notin> set (map nm l) then l @ [b] else l) lst base_lst"

text \<open>
  The names of \<^verbatim>\<open>decorated_klass.__dict__\<close> that a base class uses for a column, a
  parameter or a subanalysis and that the class binds without the explicit
  \<^verbatim>\<open>Inherited\<close>. The dictionary of the class is a list of its names in order, each
  with the answer to \<^verbatim>\<open>hasattr(atr, "metadata") and "defined_in" in atr.metadata\<close>.
\<close>

definition overwritten :: "(string \<times> bool) list \<Rightarrow> string list \<Rightarrow> string list" where
  "overwritten klass_dict base_names =
     map fst (filter (\<lambda>(nme, explicit). nme \<in> set base_names \<and> \<not> explicit) klass_dict)"

text \<open>
  One round of the loop over column specs, parameters and subanalyses: the list is
  extended, then the overwritten names raise.
\<close>

definition inherit_attributes ::
  "(string \<times> bool) list \<Rightarrow> ('a \<Rightarrow> string) \<Rightarrow> 'a list \<Rightarrow> 'a list \<Rightarrow> error + 'a list" where
  "inherit_attributes klass_dict nm lst base_lst =
     (let extended = extend_inherited nm lst base_lst;
          names = overwritten klass_dict (map nm base_lst)
      in if names \<noteq> [] then Inl (ArcanaDesignError (Overwritten names)) else Inr extended)"




section \<open>Objects at run time\<close>

text \<open>
  The objects the dispatcher and the subanalysis wrapper handle. \<open>Plain\<close> is a value
  and \<open>Other\<close> an object that is not modelled further (a method, a docstring, a tuple of attrs
  attributes), known by a label. \<open>Analysis spec attrs\<close> is an instance of an analysis
  class: its \<^verbatim>\<open>__spec__\<close> and the values of its attrs attributes (column bindings,
  parameter values, subanalysis wrappers); what else the class of the instance
  provides (its methods, \<^verbatim>\<open>__class__\<close>) is not modelled.
  \<open>Subanalysis cls s a p\<close> is an instance of the wrapper class \<^verbatim>\<open>Subanalysis\<close> with the
  objects bound to the slots \<^verbatim>\<open>_spec\<close>, \<^verbatim>\<open>_analysis\<close> and \<^verbatim>\<open>_parent\<close>; Python does not
  enforce the annotations of the slots, so each holds any object. \<open>cls\<close> holds the
  attributes that the normal lookup finds on the class of the wrapper and on its
  base \<^verbatim>\<open>object\<close> (\<^verbatim>\<open>__class__\<close>, \<^verbatim>\<open>__doc__\<close>, \<^verbatim>\<open>__eq__\<close>, \<^verbatim>\<open>__slots__\<close>,
  \<^verbatim>\<open>__attrs_attrs__\<close> and so on). They are the same for every wrapper; which they are
  depends on the versions of Python and attrs, so the object carries them.
\<close>

datatype object =
    Plain pyobj
  | Other string
  | SubanalysisSpecObj SubanalysisSpec
  | AnalysisSpecObj AnalysisSpec
  | Analysis AnalysisSpec "(string \<times> object) list"
  | Subanalysis "(string \<times> object) list" object object object

text \<open>
  \<^verbatim>\<open>SubanalysisSpec.mapping\<close>: the parent's name for the first mapping from that name,
  a \<^verbatim>\<open>KeyError\<close> when there is none.
\<close>

definition SubanalysisSpec_mapping :: "SubanalysisSpec \<Rightarrow> string \<Rightarrow> error + string" where
  "SubanalysisSpec_mapping self n =
     (case find (\<lambda>m. n = fst m) (mappings self) of
        None \<Rightarrow> Inl (KeyError n)
      | Some m \<Rightarrow> Inr (snd m))"

text \<open>\<^verbatim>\<open>self._spec.mapping(name)\<close> on whatever object the slot holds.\<close>

definition slot_mapping :: "object \<Rightarrow> string \<Rightarrow> error + string" where
  "slot_mapping s n =
     (case s of
        SubanalysisSpecObj sp \<Rightarrow> SubanalysisSpec_mapping sp n
      | _ \<Rightarrow> Inl (AttributeError ''mapping''))"

text \<open>
  \<^verbatim>\<open>_parameter_validator(_, attr, val)\<close>. The metadata of the attrs attribute holds
  the \<^verbatim>\<open>choices\<close>, \<^verbatim>\<open>lower_bound\<close> and \<^verbatim>\<open>upper_bound\<close> of the parameter, which
  \<^verbatim>\<open>make_class\<close> copies into the \<^verbatim>\<open>Parameter\<close>. \<^verbatim>\<open>val >= lower_bound\<close> between an
  integer and a value that is not a number raises \<^verbatim>\<open>TypeError\<close>; \<^verbatim>\<open>and\<close> does not
  evaluate its second operand when the first is false.
\<close>

definition py_ge :: "object \<Rightarrow> int \<Rightarrow> error + bool" where
  "py_ge val b = (case val of Plain (IntObj i) \<Rightarrow> Inr (i \<ge> b) | _ \<Rightarrow> Inl (TypeError ''>=''))"

definition py_le :: "object \<Rightarrow> int \<Rightarrow> error + bool" where
  "py_le val b = (case val of Plain (IntObj i) \<Rightarrow> Inr (i \<le> b) | _ \<Rightarrow> Inl (TypeError ''<=''))"

definition parameter_validator :: "Parameter \<Rightarrow> object \<Rightarrow> error + unit" where
  "parameter_validator attr val =
     (case choices attr of
        Some cs \<Rightarrow>
          (if val \<notin> set (map Plain cs) then Inl (ValueError (InvalidChoice (Parameter.name attr)))
           else Inr ())
      | None \<Rightarrow>
          (case (case lower_bound attr of None \<Rightarrow> Inr True | Some lb \<Rightarrow> py_ge val lb) of
             Inl e \<Rightarrow> Inl e
           | Inr lower_ok \<Rightarrow>
               (case (if lower_ok
                      then (case upper_bound attr of None \<Rightarrow> Inr True | Some ub \<Rightarrow> py_le val ub)
                      else Inr False) of
                  Inl e \<Rightarrow> Inl e
                | Inr within \<Rightarrow>
                    (if \<not> within then Inl (ValueError (OutOfBounds (Parameter.name attr)))
                     else Inr ()))))"

fun assign :: "string \<Rightarrow> 'v \<Rightarrow> (string \<times> 'v) list \<Rightarrow> (string \<times> 'v) list" where
  "assign n v [] = []"
| "assign n v ((k, w) # rest) = (if k = n then (k, v) # rest else (k, w) # assign n v rest)"

text \<open>
  Python's \<^verbatim>\<open>getattr(obj, name)\<close> and the hook \<^verbatim>\<open>Subanalysis.__getattr__\<close>. Python
  calls the hook only when the normal lookup finds nothing: on a wrapper the normal
  lookup finds the three slots and every attribute of the class of the wrapper. In
  the hook, \<^verbatim>\<open>object.__getattr__(self, name)\<close> always raises \<^verbatim>\<open>AttributeError\<close>
  (\<^verbatim>\<open>object\<close> has no \<^verbatim>\<open>__getattr__\<close>), which is caught. The fields of a spec are
  read with the record selectors; \<open>getattr\<close> on a spec, a plain value or an object
  that is not modelled stands for the lookup of a name they do not have.
\<close>

function getattr :: "object \<Rightarrow> string \<Rightarrow> error + object"
  and Subanalysis_getattr :: "object \<Rightarrow> object \<Rightarrow> object \<Rightarrow> string \<Rightarrow> error + object" where
  "getattr (Plain v) n = Inl (AttributeError n)"
| "getattr (Other label) n = Inl (AttributeError n)"
| "getattr (SubanalysisSpecObj sp) n = Inl (AttributeError n)"
| "getattr (AnalysisSpecObj sp) n = Inl (AttributeError n)"
| "getattr (Analysis sp attrs) n =
     (if n = ''__spec__'' then Inr (AnalysisSpecObj sp)
      else case map_of attrs n of None \<Rightarrow> Inl (AttributeError n) | Some v \<Rightarrow> Inr v)"
| "getattr (Subanalysis cls s a p) n =
     (if n = ''_spec'' then Inr s
      else if n = ''_analysis'' then Inr a
      else if n = ''_parent'' then Inr p
      else case map_of cls n of
             Some v \<Rightarrow> Inr v
           | None \<Rightarrow> Subanalysis_getattr s a p n)"
| "Subanalysis_getattr s a p n =
     (case slot_mapping s n of
        Inr mapped_name \<Rightarrow> getattr p mapped_name
      | Inl (KeyError k) \<Rightarrow> getattr a n
      | Inl e \<Rightarrow> Inl e)"
  by pat_completeness auto
termination
  by (relation "measure (\<lambda>x. case x of Inl (obj, n) \<Rightarrow> 2 * size obj
                                    | Inr (s, a, p, n) \<Rightarrow> 2 * (size a + size p) + 1)") auto

text \<open>
  Python's \<^verbatim>\<open>setattr(obj, name, value)\<close> and \<^verbatim>\<open>Subanalysis.__setattr__\<close>, which
  Python calls for every assignment to an attribute of a wrapper; the object is
  returned as it is after the assignment. The analysis class is made by
  \<^verbatim>\<open>attrs.define\<close>: it has a slot for each declared attribute only, and an
  assignment runs the validator of the attribute first, which for a parameter is
  \<^verbatim>\<open>_parameter_validator\<close> (\<^verbatim>\<open>to_attrs_field\<close> of \<^verbatim>\<open>_TempParameterAttr\<close>).
\<close>

function setattr :: "object \<Rightarrow> string \<Rightarrow> object \<Rightarrow> error + object"
  and Subanalysis_setattr ::
    "(string \<times> object) list \<Rightarrow> object \<Rightarrow> object \<Rightarrow> object \<Rightarrow> string \<Rightarrow> object \<Rightarrow> error + object"
  where
  "setattr (Plain v) n val = Inl (AttributeError n)"
| "setattr (Other label) n val = Inl (AttributeError n)"
| "setattr (SubanalysisSpecObj sp) n val = Inl (AttributeError n)"
| "setattr (AnalysisSpecObj sp) n val = Inl (AttributeError n)"
| "setattr (Analysis sp attrs) n val =
     (if n \<notin> set (map fst attrs) then Inl (AttributeError n)
      else case find (\<lambda>p. Parameter.name p = n) (AnalysisSpec.parameters sp) of
             None \<Rightarrow> Inr (Analysis sp (assign n val attrs))
           | Some attr \<Rightarrow>
               (case parameter_validator attr val of
                  Inl e \<Rightarrow> Inl e
                | Inr _ \<Rightarrow> Inr (Analysis sp (assign n val attrs))))"
| "setattr (Subanalysis cls s a p) n val = Subanalysis_setattr cls s a p n val"
| "Subanalysis_setattr cls s a p n val =
     (if n = ''_spec'' then Inr (Subanalysis cls val a p)
      else if n = ''_analysis'' then Inr (Subanalysis cls s val p)
      else if n = ''_parent'' then Inr (Subanalysis cls s a val)
      else case slot_mapping s n of
             Inr mapped_name \<Rightarrow> Inl (AttributeError n)
           | Inl (KeyError k) \<Rightarrow>
               (case setattr a n val of
                  Inl e \<Rightarrow> Inl e
                | Inr a' \<Rightarrow> Inr (Subanalysis cls s a' p))
           | Inl e \<Rightarrow> Inl e)"
  by pat_completeness auto
termination
  by (relation "measure (\<lambda>x. case x of Inl (obj, n, v) \<Rightarrow> 2 * size obj
                                    | Inr (cls, s, a, p, n, v) \<Rightarrow> 2 * (size a + size p) + 1)") auto

section \<open>Evaluation of conditions\<close>

text \<open>
  \<^verbatim>\<open>getattr(analysis, operands[0])\<close>: the name has to be a string.
\<close>

definition getattr_by :: "object \<Rightarrow> object \<Rightarrow> error + object" where
  "getattr_by obj key =
     (case key of
        Plain (StrObj n) \<Rightarrow> getattr obj n
      | _ \<Rightarrow> Inl (TypeError ''attribute name must be string''))"

text \<open>
  \<^verbatim>\<open>column.format is in_format or issubclass(column.format, in_format)\<close>. \<^verbatim>\<open>is\<close> is
  identity: a class is itself, and so is \<^verbatim>\<open>None\<close>; two other values are taken to be
  two objects, also when they are equal. \<^verbatim>\<open>issubclass\<close> raises \<^verbatim>\<open>TypeError\<close> unless
  both arguments are classes.
\<close>

definition is_same :: "object \<Rightarrow> object \<Rightarrow> bool" where
  "is_same a b =
     (case (a, b) of
        (Plain (ClassObj c _), Plain (ClassObj d _)) \<Rightarrow> c = d
      | (Plain NoneObj, Plain NoneObj) \<Rightarrow> True
      | _ \<Rightarrow> False)"

definition is_or_subclass :: "object \<Rightarrow> object \<Rightarrow> error + object" where
  "is_or_subclass fmt in_format =
     (if is_same fmt in_format then Inr (Plain (py_bool True))
      else case (fmt, in_format) of
             (Plain (ClassObj c ancestors), Plain (ClassObj d _)) \<Rightarrow>
               Inr (Plain (py_bool (c = d \<or> d \<in> set ancestors)))
           | _ \<Rightarrow> Inl (TypeError ''issubclass() arguments must be classes''))"

text \<open>
  \<^verbatim>\<open>Operation.evaluate(self, analysis, dataset)\<close>. The first statement calls
  \<^verbatim>\<open>o.evaluate(analysis, dataset)\<close> on every operand, in order; an operand that is not
  an \<^verbatim>\<open>Operation\<close> (an attribute name, a literal, a format class) has no such method,
  which is an \<^verbatim>\<open>AttributeError\<close>. Two collaborators are parameters: \<open>opm\<close> is
  \<^verbatim>\<open>getattr(operator_module, self.operator)(*operands)\<close> of the standard library, and
  \<open>dataset\<close> is \<^verbatim>\<open>dataset[column_name].format\<close> of the \<^verbatim>\<open>Dataset\<close> class, which is not
  among the source files.
\<close>

type_synonym Dataset = "object \<Rightarrow> error + object"

fun evaluate ::
    "(string \<Rightarrow> object list \<Rightarrow> error + object) \<Rightarrow> object \<Rightarrow> Dataset \<Rightarrow> pyobj \<Rightarrow> error + object"
  and evaluate_operands ::
    "(string \<Rightarrow> object list \<Rightarrow> error + object) \<Rightarrow> object \<Rightarrow> Dataset \<Rightarrow> pyobj list \<Rightarrow> error + object list"
  where
  "evaluate opm analysis dataset (Operation operator operands) =
     (case evaluate_operands opm analysis dataset operands of
        Inl e \<Rightarrow> Inl e
      | Inr vals \<Rightarrow>
          (if operator = ''value_of'' then
             (case vals of
                [v] \<Rightarrow> getattr_by analysis v
              | _ \<Rightarrow> Inl AssertionError)
           else if operator = ''is_provided'' then
             (if \<not> length vals \<le> 2 then Inl AssertionError
              else case vals of
                     [] \<Rightarrow> Inl IndexError
                   | v # others \<Rightarrow>
                       (case getattr_by analysis v of
                          Inl e \<Rightarrow> Inl e
                        | Inr column_name \<Rightarrow>
                            (if column_name = Plain NoneObj then Inr (Plain (py_bool False))
                             else case dataset column_name of
                                    Inl e \<Rightarrow> Inl e
                                  | Inr fmt \<Rightarrow>
                                      (case others of
                                         [in_format] \<Rightarrow> is_or_subclass fmt in_format
                                       | _ \<Rightarrow> Inr (Plain (py_bool True))))))
           else opm operator vals))"
| "evaluate opm analysis dataset NoneObj = Inl (AttributeError ''evaluate'')"
| "evaluate opm analysis dataset (IntObj i) = Inl (AttributeError ''evaluate'')"
| "evaluate opm analysis dataset (StrObj n) = Inl (AttributeError ''evaluate'')"
| "evaluate opm analysis dataset (ClassObj c ancestors) = Inl (AttributeError ''evaluate'')"
| "evaluate_operands opm analysis dataset [] = Inr []"
| "evaluate_operands opm analysis dataset (x # xs) =
     (case evaluate opm analysis dataset x of
        Inl e \<Rightarrow> Inl e
      | Inr v \<Rightarrow>
          (case evaluate_operands opm analysis dataset xs of
             Inl e \<Rightarrow> Inl e
           | Inr vs \<Rightarrow> Inr (v # vs)))"

section \<open>Selection of pipeline builders\<close>

text \<open>
  \<^verbatim>\<open>m.condition.evaluate(self, analysis, dataset)\<close> in
  \<^verbatim>\<open>ColumnSpec.select_pipeline_builders\<close>: the bound method \<^verbatim>\<open>evaluate\<close> of an
  \<^verbatim>\<open>Operation\<close> takes \<^verbatim>\<open>analysis\<close> and \<^verbatim>\<open>dataset\<close>, and is called here with the column
  spec as a third positional argument. Python binds the arguments before it runs
  the body, so the call raises \<^verbatim>\<open>TypeError\<close> whatever the operation is. A condition
  that is not an \<^verbatim>\<open>Operation\<close> (\<^verbatim>\<open>make_class\<close> stores the attribute name when the
  condition is an attribute) has no method \<^verbatim>\<open>evaluate\<close>.
\<close>

definition condition_evaluate :: "pyobj \<Rightarrow> ColumnSpec \<Rightarrow> object \<Rightarrow> Dataset \<Rightarrow> error + object" where
  "condition_evaluate cond self analysis dataset =
     (case cond of
        Operation operator operands \<Rightarrow>
          Inl (TypeError ''evaluate() takes 3 positional arguments but 4 were given'')
      | _ \<Rightarrow> Inl (AttributeError ''evaluate''))"

text \<open>Python's truth value of an object.\<close>

definition truthy :: "object \<Rightarrow> bool" where
  "truthy v = (v \<noteq> Plain NoneObj \<and> v \<noteq> Plain (IntObj 0) \<and> v \<noteq> Plain (StrObj []))"

text \<open>
  The list comprehension that builds \<^verbatim>\<open>selected\<close>: \<^verbatim>\<open>m.condition is not None and
  m.condition.evaluate(self, analysis, dataset)\<close> for each candidate in order; the
  first exception ends it.
\<close>

fun select_conditional ::
  "ColumnSpec \<Rightarrow> object \<Rightarrow> Dataset \<Rightarrow> PipelineBuilder list \<Rightarrow> error + PipelineBuilder list" where
  "select_conditional self analysis dataset [] = Inr []"
| "select_conditional self analysis dataset (m # ms) =
     (if condition m = NoneObj then select_conditional self analysis dataset ms
      else case condition_evaluate (condition m) self analysis dataset of
             Inl e \<Rightarrow> Inl e
           | Inr v \<Rightarrow>
               (case select_conditional self analysis dataset ms of
                  Inl e \<Rightarrow> Inl e
                | Inr sel \<Rightarrow> Inr (if truthy v then m # sel else sel)))"

text \<open>
  The delegation to a subanalysis: \<^verbatim>\<open>getattr(analysis, self.mapped_from[0])\<close>, then
  \<^verbatim>\<open>subanalysis.__spec__.column(self.mapped_from[1])\<close>. The class \<^verbatim>\<open>AnalysisSpec\<close>
  defines \<^verbatim>\<open>column_spec\<close>, \<^verbatim>\<open>column_specs\<close>, \<^verbatim>\<open>column_names\<close> and \<^verbatim>\<open>column_checks\<close>,
  and no attribute \<^verbatim>\<open>column\<close>: the lookup of \<^verbatim>\<open>column\<close> on the spec raises
  \<^verbatim>\<open>AttributeError\<close>, and where \<^verbatim>\<open>__spec__\<close> yields another object that has an
  attribute of that name, its value is not callable. The recursive call
  \<^verbatim>\<open>sub_column_spec.select_pipeline_builders(subanalysis, dataset)\<close> that follows in
  the source is therefore never reached.
\<close>

definition delegate :: "object \<Rightarrow> string \<times> string \<Rightarrow> error + PipelineBuilder list" where
  "delegate analysis mapped =
     (case getattr analysis (fst mapped) of
        Inl e \<Rightarrow> Inl e
      | Inr subanalysis \<Rightarrow>
          (case getattr subanalysis ''__spec__'' of
             Inl e \<Rightarrow> Inl e
           | Inr sub_spec \<Rightarrow>
               (case getattr sub_spec ''column'' of
                  Inl e \<Rightarrow> Inl e
                | Inr f \<Rightarrow> Inl (TypeError ''object is not callable''))))"

text \<open>
  The end of \<^verbatim>\<open>select_pipeline_builders\<close>, "Check to see whether there are pipelines
  with the same switch". \<^verbatim>\<open>all_switches.count(p.switch)\<close> is the number of selected
  builders with the switch of \<open>p\<close>, itself included, and the comprehension keeps
  \<open>p\<close> when that number is not zero.
\<close>

definition check_duplicate_switches :: "PipelineBuilder list \<Rightarrow> error + PipelineBuilder list" where
  "check_duplicate_switches selected =
     (let all_switches = map switch selected;
          with_duplicate_switches =
            filter (\<lambda>p. count_list all_switches (switch p) \<noteq> 0) selected
      in if with_duplicate_switches \<noteq> [] then
           Inl (ArcanaDesignError (MultipleMatchingBuilders with_duplicate_switches))
         else Inr selected)"

text \<open>\<^verbatim>\<open>ColumnSpec.select_pipeline_builders(self, analysis, dataset)\<close>.\<close>

definition select_pipeline_builders ::
  "ColumnSpec \<Rightarrow> object \<Rightarrow> Dataset \<Rightarrow> error + PipelineBuilder list" where
  "select_pipeline_builders self analysis dataset =
     (case getattr analysis ''__spec__'' of
        Inl e \<Rightarrow> Inl e
      | Inr (AnalysisSpecObj spec) \<Rightarrow>
          (let candidates =
                 filter (\<lambda>p. ColumnSpec.name self \<in> set (outputs p)) (pipeline_builders spec)
           in case select_conditional self analysis dataset candidates of
                Inl e \<Rightarrow> Inl e
              | Inr conditional \<Rightarrow>
                  (let defaulted =
                         (if conditional = [] then filter (\<lambda>p. condition p = NoneObj) candidates
                          else conditional)
                   in case (if defaulted = [] then
                              (case ColumnSpec.mapped_from self of
                                 None \<Rightarrow> Inr defaulted
                               | Some mapped \<Rightarrow> delegate analysis mapped)
                            else Inr defaulted) of
                        Inl e \<Rightarrow> Inl e
                      | Inr selected \<Rightarrow>
                          (if selected = [] then
                             Inl (ArcanaDesignError (NoMatchingBuilders candidates))
                           else check_duplicate_switches selected)))
      | Inr _ \<Rightarrow> Inl (AttributeError ''pipeline_builders''))"

section \<open>Example definitions\<close>

text \<open>
  The analysis definition \<open>D\<close> of the specification's end-to-end scenario: a column
  \<open>out\<close> of salience \<^verbatim>\<open>publication\<close>, a builder \<open>B1\<close> for it under the condition
  \<^verbatim>\<open>value_of(mode) == "fast"\<close> and a builder \<open>B2\<close> for it with no condition. Both read
  the primary column \<open>src\<close>.
\<close>

definition mode_is_fast :: pyobj where
  "mode_is_fast = Operation ''eq'' [Operation ''value_of'' [StrObj ''mode''], StrObj ''fast'']"

definition D_out :: ColumnSpec where
  "D_out = \<lparr>ColumnSpec.name = ''out'', ColumnSpec.type = ''Image'', ColumnSpec.desc = [],
            row_frequency = ''session'', ColumnSpec.salience = publication,
            ColumnSpec.defined_in = [''D''], ColumnSpec.modified = [],
            ColumnSpec.mapped_from = None\<rparr>"

definition D_src :: ColumnSpec where
  "D_src = \<lparr>ColumnSpec.name = ''src'', ColumnSpec.type = ''Image'', ColumnSpec.desc = [],
            row_frequency = ''session'', ColumnSpec.salience = primary,
            ColumnSpec.defined_in = [''D''], ColumnSpec.modified = [],
            ColumnSpec.mapped_from = None\<rparr>"

definition D_mode :: Parameter where
  "D_mode = \<lparr>Parameter.name = ''mode'', Parameter.type = ''str'', Parameter.desc = [],
             Parameter.salience = ''recommended'',
             choices = Some [StrObj ''fast'', StrObj ''slow''],
             lower_bound = None, upper_bound = None, Parameter.defined_in = [''D''],
             Parameter.modified = [], default = StrObj ''slow'', Parameter.mapped_from = None\<rparr>"

definition B1 :: PipelineBuilder where
  "B1 = \<lparr>PipelineBuilder.name = ''B1'', PipelineBuilder.desc = [],
         PipelineBuilder.parameters = [], PipelineBuilder.inputs = [''src''],
         outputs = [''out''], condition = mode_is_fast, switch = None,
         PipelineBuilder.method_name = ''B1'', PipelineBuilder.defined_in = ''D''\<rparr>"

definition B2 :: PipelineBuilder where
  "B2 = \<lparr>PipelineBuilder.name = ''B2'', PipelineBuilder.desc = [],
         PipelineBuilder.parameters = [], PipelineBuilder.inputs = [''src''],
         outputs = [''out''], condition = NoneObj, switch = None,
         PipelineBuilder.method_name = ''B2'', PipelineBuilder.defined_in = ''D''\<rparr>"

definition D_spec :: AnalysisSpec where
  "D_spec = \<lparr>space = ''Clinical'', column_specs = [D_out, D_src],
             pipeline_builders = [B1, B2], AnalysisSpec.parameters = [D_mode],
             switches = [], checks = [], subanalyses = []\<rparr>"

text \<open>An instance of \<open>D\<close> with \<open>mode\<close> set to \<^verbatim>\<open>"slow"\<close> and \<open>src\<close> bound.\<close>

definition D_slow :: object where
  "D_slow = Analysis D_spec
     [(''out'', Plain NoneObj), (''src'', Plain (StrObj ''t1w'')), (''mode'', Plain (StrObj ''slow''))]"

text \<open>The definition \<open>D\<close> with the unconditional builder \<open>B2\<close> alone, and an instance.\<close>

definition D_default_spec :: AnalysisSpec where
  "D_default_spec = D_spec\<lparr>pipeline_builders := [B2]\<rparr>"

definition D_default :: object where
  "D_default = Analysis D_default_spec
     [(''out'', Plain NoneObj), (''src'', Plain (StrObj ''t1w'')), (''mode'', Plain (StrObj ''slow''))]"

text \<open>A dataset with the single column \<open>t1w\<close>, of format \<open>Nifti\<close>, a subclass of \<open>Image\<close>.\<close>

definition t1w_dataset :: Dataset where
  "t1w_dataset column_name =
     (if column_name = Plain (StrObj ''t1w'') then Inr (Plain (ClassObj ''Nifti'' [''Image'']))
      else Inl (KeyError ''column''))"

text \<open>
  A definition \<open>P\<close> with a subanalysis \<open>sub\<close> of definition \<open>S\<close>. The column \<open>c\<close> of \<open>P\<close>
  is mapped from the column \<open>inner\<close> of \<open>sub\<close>; \<open>S\<close> has one unconditional builder
  \<open>SB\<close> for \<open>inner\<close>. \<^verbatim>\<open>make_class\<close> adds the mapping from \<open>inner\<close> to \<open>c\<close> to the
  subanalysis spec.
\<close>

definition S_inner :: ColumnSpec where
  "S_inner = D_out\<lparr>ColumnSpec.name := ''inner'', ColumnSpec.defined_in := [''S'']\<rparr>"

definition SB :: PipelineBuilder where
  "SB = B2\<lparr>PipelineBuilder.name := ''SB'', outputs := [''inner''],
            PipelineBuilder.method_name := ''SB'', PipelineBuilder.defined_in := ''S''\<rparr>"

definition S_spec :: AnalysisSpec where
  "S_spec = \<lparr>space = ''Clinical'', column_specs = [S_inner, D_src],
             pipeline_builders = [SB], AnalysisSpec.parameters = [],
             switches = [], checks = [], subanalyses = []\<rparr>"

definition P_c :: ColumnSpec where
  "P_c = D_out\<lparr>ColumnSpec.name := ''c'', ColumnSpec.defined_in := [''P''],
               ColumnSpec.mapped_from := Some (''sub'', ''inner'')\<rparr>"

definition P_sub :: SubanalysisSpec where
  "P_sub = \<lparr>SubanalysisSpec.name = ''sub'', SubanalysisSpec.desc = [],
            SubanalysisSpec.type = ''S'', mappings = [(''inner'', ''c'')],
            SubanalysisSpec.defined_in = [''P'']\<rparr>"

definition P_spec :: AnalysisSpec where
  "P_spec = \<lparr>space = ''Clinical'', column_specs = [P_c],
             pipeline_builders = [], AnalysisSpec.parameters = [],
             switches = [], checks = [], subanalyses = [P_sub]\<rparr>"

definition S_instance :: object where
  "S_instance = Analysis S_spec [(''inner'', Plain NoneObj), (''src'', Plain (StrObj ''t1w''))]"

text \<open>
  Attributes that the normal lookup finds on the class \<^verbatim>\<open>Subanalysis\<close> in every
  version: those of \<^verbatim>\<open>object\<close>, those of the class body and those that
  \<^verbatim>\<open>attrs.define\<close> adds (it sets \<^verbatim>\<open>__hash__\<close> to \<^verbatim>\<open>None\<close> and adds a slot
  \<^verbatim>\<open>__weakref__\<close>, which is empty). A version may add others, such as
  \<^verbatim>\<open>__match_args__\<close> or \<^verbatim>\<open>__getstate__\<close>; no name that an analysis declares is among
  them.
\<close>

definition Subanalysis_class :: "(string \<times> object) list" where
  "Subanalysis_class =
     [(''__class__'', Plain (ClassObj ''Subanalysis'' [''object''])),
      (''__doc__'', Other ''__doc__''),
      (''__module__'', Plain (StrObj ''arcana.core.analysis'')),
      (''__hash__'', Plain NoneObj),
      (''__slots__'', Other ''__slots__''),
      (''__attrs_attrs__'', Other ''__attrs_attrs__''),
      (''__weakref__'', Plain NoneObj),
      (''__init__'', Other ''__init__''),
      (''__repr__'', Other ''__repr__''),
      (''__eq__'', Other ''__eq__''),
      (''__ne__'', Other ''__ne__''),
      (''__getattr__'', Other ''__getattr__''),
      (''__setattr__'', Other ''__setattr__''),
      (''__getattribute__'', Other ''__getattribute__''),
      (''__delattr__'', Other ''__delattr__''),
      (''__dir__'', Other ''__dir__''),
      (''__str__'', Other ''__str__''),
      (''__format__'', Other ''__format__''),
      (''__new__'', Other ''__new__''),
      (''__reduce__'', Other ''__reduce__''),
      (''__reduce_ex__'', Other ''__reduce_ex__''),
      (''__sizeof__'', Other ''__sizeof__''),
      (''__lt__'', Other ''__lt__''),
      (''__le__'', Other ''__le__''),
      (''__gt__'', Other ''__gt__''),
      (''__ge__'', Other ''__ge__''),
      (''__init_subclass__'', Other ''__init_subclass__''),
      (''__subclasshook__'', Other ''__subclasshook__'')]"

definition P_wrapper :: object where
  "P_wrapper = Subanalysis Subanalysis_class (SubanalysisSpecObj P_sub) S_instance
                 (Analysis P_spec [(''c'', Plain (StrObj ''flair''))])"

definition P_instance :: object where
  "P_instance = Analysis P_spec [(''c'', Plain (StrObj ''flair'')), (''sub'', P_wrapper)]"


text \<open>
  A definition \<open>T\<close> with a parameter \<open>level\<close> bounded by 0 and 10 and the parameter
  \<open>mode\<close> of \<open>D\<close>, which has choices; and an instance.
\<close>

definition T_level :: Parameter where
  "T_level = \<lparr>Parameter.name = ''level'', Parameter.type = ''int'', Parameter.desc = [],
             Parameter.salience = ''recommended'', choices = None,
             lower_bound = Some 0, upper_bound = Some 10, Parameter.defined_in = [''T''],
             Parameter.modified = [], default = IntObj 5, Parameter.mapped_from = None\<rparr>"

definition T_spec :: AnalysisSpec where
  "T_spec = \<lparr>space = ''Clinical'', column_specs = [],
             pipeline_builders = [], AnalysisSpec.parameters = [T_level, D_mode],
             switches = [], checks = [], subanalyses = []\<rparr>"

definition T_instance :: object where
  "T_instance = Analysis T_spec [(''level'', Plain (IntObj 5)), (''mode'', Plain (StrObj ''slow''))]"

text \<open>
  A wrapper like that of \<open>P\<close> whose spec maps the names \<^verbatim>\<open>_parent\<close> and \<^verbatim>\<open>__class__\<close> of
  the subanalysis to \<open>c\<close>.
\<close>

definition Q_sub :: SubanalysisSpec where
  "Q_sub = P_sub\<lparr>mappings := [(''_parent'', ''c''), (''__class__'', ''c'')]\<rparr>"

definition Q_wrapper :: object where
  "Q_wrapper = Subanalysis Subanalysis_class (SubanalysisSpecObj Q_sub) S_instance
                 (Analysis P_spec [(''c'', Plain (StrObj ''flair''))])"













text \<open>
  The definition \<open>D\<close> with a second unconditional builder \<open>B3\<close> for \<open>out\<close>.
\<close>

definition B3 :: PipelineBuilder where
  "B3 = B2\<lparr>PipelineBuilder.name := ''B3'', PipelineBuilder.method_name := ''B3''\<rparr>"

definition D_ambiguous_spec :: AnalysisSpec where
  "D_ambiguous_spec = D_spec\<lparr>pipeline_builders := [B1, B2, B3]\<rparr>"

text \<open>
  The definition \<open>D\<close> with the salience of \<open>src\<close> lowered to \<^verbatim>\<open>publication\<close>, and with
  one more primary column \<open>aux\<close> that no builder reads or writes.
\<close>

definition D_src_publication :: ColumnSpec where
  "D_src_publication = D_src\<lparr>ColumnSpec.salience := publication\<rparr>"

definition D_publication_spec :: AnalysisSpec where
  "D_publication_spec = D_spec\<lparr>column_specs := [D_out, D_src_publication]\<rparr>"

definition D_aux :: ColumnSpec where
  "D_aux = D_src\<lparr>ColumnSpec.name := ''aux''\<rparr>"

definition D_unused_spec :: AnalysisSpec where
  "D_unused_spec = D_spec\<lparr>column_specs := [D_out, D_aux, D_src]\<rparr>"

section \<open>Theorems\<close>

lemma next_named_absent: "n \<notin> set (map nm xs) \<Longrightarrow> next_named nm xs n = Inl StopIteration"
  by (induction xs) (auto simp: next_named_def)

lemma next_named_present:
  "n \<in> set (map nm xs) \<Longrightarrow> \<exists>x. next_named nm xs n = Inr x \<and> x \<in> set xs \<and> nm x = n"
  by (induction xs) (auto simp: next_named_def)

text \<open>
  Claim C10. For a name that no entity of the queried kind carries, each of the six
  lookup-by-name accessors of an \<^verbatim>\<open>AnalysisSpec\<close> (\<^verbatim>\<open>column_spec\<close>, \<^verbatim>\<open>parameter\<close>,
  \<^verbatim>\<open>pipeline_builder\<close>, \<^verbatim>\<open>switch\<close>, \<^verbatim>\<open>check\<close>, \<^verbatim>\<open>subanalysis\<close>) raises a bare
  \<^verbatim>\<open>StopIteration\<close>: it returns neither a value nor a design error.
\<close>

theorem accessors_raise_StopIteration:
  "(n \<notin> set (map ColumnSpec.name (column_specs s)) \<longrightarrow>
      AnalysisSpec_column_spec s n = Inl StopIteration) \<and>
   (n \<notin> set (map Parameter.name (AnalysisSpec.parameters s)) \<longrightarrow>
      AnalysisSpec_parameter s n = Inl StopIteration) \<and>
   (n \<notin> set (map PipelineBuilder.name (pipeline_builders s)) \<longrightarrow>
      AnalysisSpec_pipeline_builder s n = Inl StopIteration) \<and>
   (n \<notin> set (map Switch.name (switches s)) \<longrightarrow>
      AnalysisSpec_switch s n = Inl StopIteration) \<and>
   (n \<notin> set (map Check.name (checks s)) \<longrightarrow>
      AnalysisSpec_check s n = Inl StopIteration) \<and>
   (n \<notin> set (map SubanalysisSpec.name (subanalyses s)) \<longrightarrow>
      AnalysisSpec_subanalysis s n = Inl StopIteration)"
  by (simp add: AnalysisSpec_column_spec_def AnalysisSpec_parameter_def
      AnalysisSpec_pipeline_builder_def AnalysisSpec_switch_def AnalysisSpec_check_def
      AnalysisSpec_subanalysis_def next_named_absent del: set_map)

theorem accessors_raise_StopIteration_witness:
  "AnalysisSpec_column_spec D_spec ''mode'' = Inl StopIteration \<and>
   AnalysisSpec_parameter D_spec ''out'' = Inl StopIteration \<and>
   AnalysisSpec_pipeline_builder D_spec ''B3'' = Inl StopIteration \<and>
   AnalysisSpec_switch D_spec ''B1'' = Inl StopIteration \<and>
   AnalysisSpec_check D_spec ''out'' = Inl StopIteration \<and>
   AnalysisSpec_subanalysis D_spec ''sub'' = Inl StopIteration \<and>
   AnalysisSpec_column_spec D_spec ''out'' = Inr D_out"
proof -
  have absent:
    "''mode'' \<notin> set (map ColumnSpec.name (column_specs D_spec))"
    "''out'' \<notin> set (map Parameter.name (AnalysisSpec.parameters D_spec))"
    "''B3'' \<notin> set (map PipelineBuilder.name (pipeline_builders D_spec))"
    "''B1'' \<notin> set (map Switch.name (switches D_spec))"
    "''out'' \<notin> set (map Check.name (checks D_spec))"
    "''sub'' \<notin> set (map SubanalysisSpec.name (subanalyses D_spec))"
    by (simp_all add: D_spec_def D_out_def D_src_def D_mode_def B1_def B2_def)
  have present: "AnalysisSpec_column_spec D_spec ''out'' = Inr D_out"
    by (simp add: AnalysisSpec_column_spec_def next_named_def D_spec_def D_out_def)
  show ?thesis
    using absent present
      accessors_raise_StopIteration [of "''mode''" D_spec]
      accessors_raise_StopIteration [of "''out''" D_spec]
      accessors_raise_StopIteration [of "''B3''" D_spec]
      accessors_raise_StopIteration [of "''B1''" D_spec]
      accessors_raise_StopIteration [of "''sub''" D_spec]
    by simp
qed

subsection \<open>The dispatcher\<close>

lemma filter_count_nonzero: "filter (\<lambda>p. 0 < count_list (map f xs) (f p)) xs = xs"
proof (rule filter_True)
  show "\<forall>x\<in>set xs. 0 < count_list (map f xs) (f x)"
  proof
    fix x assume "x \<in> set xs"
    then have "count_list (map f xs) (f x) \<noteq> 0"
      by (simp add: count_list_0_iff)
    then show "0 < count_list (map f xs) (f x)" by simp
  qed
qed

lemma check_duplicate_switches_cases:
  "check_duplicate_switches selected =
     (if selected = [] then Inr [] else Inl (ArcanaDesignError (MultipleMatchingBuilders selected)))"
  by (simp add: check_duplicate_switches_def Let_def filter_count_nonzero)

lemma delegate_raises: "isl (delegate analysis mapped)"
  by (auto simp: delegate_def split: sum.splits)

lemma select_conditional_Inr:
  "select_conditional self analysis dataset cands = Inr sel \<Longrightarrow> sel = []"
  by (induction cands arbitrary: sel)
     (auto simp: condition_evaluate_def split: if_splits sum.splits pyobj.splits)

text \<open>
  As the source stands, \<^verbatim>\<open>select_pipeline_builders\<close> returns no selection on any
  input: a candidate with a condition makes the call of \<^verbatim>\<open>evaluate\<close> raise, the
  delegation raises, an empty selection raises, and so does every other.
\<close>

lemma select_pipeline_builders_never_returns:
  "isl (select_pipeline_builders self analysis dataset)"
proof (cases "getattr analysis ''__spec__''")
  case (Inl e)
  then show ?thesis by (simp add: select_pipeline_builders_def)
next
  case (Inr ob)
  show ?thesis
  proof (cases ob)
    case (AnalysisSpecObj spec)
    let ?cands = "filter (\<lambda>p. ColumnSpec.name self \<in> set (outputs p)) (pipeline_builders spec)"
    show ?thesis
    proof (cases "select_conditional self analysis dataset ?cands")
      case (Inl e)
      with Inr AnalysisSpecObj show ?thesis by (simp add: select_pipeline_builders_def)
    next
      case sel: (Inr sel)
      then have "sel = []" by (rule select_conditional_Inr)
      with sel Inr AnalysisSpecObj show ?thesis
        using delegate_raises[of analysis]
        by (auto simp: select_pipeline_builders_def Let_def check_duplicate_switches_cases
                 split: sum.splits option.splits)
    qed
  qed (use Inr in \<open>simp_all add: select_pipeline_builders_def\<close>)
qed

text \<open>
  Claim C1 says that the ambiguity check at the end of \<^verbatim>\<open>select_pipeline_builders\<close>
  raises exactly when two selected builders have the same switch, and returns a
  single selected builder. The code does not do that: the check rejects every
  selection that is not empty, with the whole selection as the "duplicates", because
  the count of a builder's switch among the selected switches includes the builder
  itself and is compared with zero.
\<close>

theorem ambiguity_check_rejects_every_selection:
  "selected \<noteq> [] \<Longrightarrow>
   check_duplicate_switches selected = Inl (ArcanaDesignError (MultipleMatchingBuilders selected))"
  by (simp add: check_duplicate_switches_cases)

theorem ambiguity_check_rejects_every_selection_witness:
  "select_pipeline_builders D_out D_default t1w_dataset =
     Inl (ArcanaDesignError (MultipleMatchingBuilders [B2]))"
proof -
  have "check_duplicate_switches [B2] = Inl (ArcanaDesignError (MultipleMatchingBuilders [B2]))"
    using ambiguity_check_rejects_every_selection [of "[B2]"] by simp
  then show ?thesis
    by (simp add: select_pipeline_builders_def D_default_def D_default_spec_def D_spec_def
        D_out_def B2_def)
qed

text \<open>
  Claim C2 says that with one builder whose condition is false and one builder without
  a condition, resolving the column returns the unconditional builder. The code does
  not: for the instance of \<open>D\<close> with \<open>mode\<close> set to \<^verbatim>\<open>"slow"\<close>, the selection for \<open>out\<close>
  raises \<^verbatim>\<open>TypeError\<close> at the conditional builder \<open>B1\<close>, whose \<^verbatim>\<open>evaluate\<close> is called
  with one positional argument too many.
\<close>

theorem default_then_condition_raises:
  "select_pipeline_builders D_out D_slow dataset =
     Inl (TypeError ''evaluate() takes 3 positional arguments but 4 were given'')"
  by (simp add: select_pipeline_builders_def D_slow_def D_spec_def D_out_def B1_def B2_def
      condition_evaluate_def mode_is_fast_def)

text \<open>
  Two more facts about the same input: called with the two arguments it declares,
  \<^verbatim>\<open>evaluate\<close> of the condition of \<open>B1\<close> raises as well (see claim C7), and the
  fallback selection \<open>[B2]\<close> alone does not pass the ambiguity check (see claim C1).
\<close>

lemma mode_is_fast_evaluate_raises:
  "evaluate opm D_slow dataset mode_is_fast = Inl (AttributeError ''evaluate'')"
  by (simp add: mode_is_fast_def)

lemma default_selection_rejected:
  "check_duplicate_switches [B2] = Inl (ArcanaDesignError (MultipleMatchingBuilders [B2]))"
  by (simp add: check_duplicate_switches_cases)

text \<open>
  Claim C4 says that a column mapped from a subanalysis, with no local builder, is
  resolved by the builders of the mapped column in the subanalysis. The code does
  not: for the column \<open>c\<close> of \<open>P\<close>, mapped from \<open>inner\<close> of \<open>sub\<close>, the selection raises
  \<^verbatim>\<open>AttributeError\<close>, because the spec of the subanalysis is asked for an attribute
  \<^verbatim>\<open>column\<close> that \<^verbatim>\<open>AnalysisSpec\<close> does not have.
\<close>

theorem delegation_raises:
  "select_pipeline_builders P_c P_instance dataset = Inl (AttributeError ''column'')"
  by (simp add: select_pipeline_builders_def P_instance_def P_spec_def P_c_def D_out_def
      delegate_def P_wrapper_def Subanalysis_class_def slot_mapping_def P_sub_def
      SubanalysisSpec_mapping_def S_instance_def)

subsection \<open>Conditions\<close>

text \<open>
  Claim C7 says that an \<^verbatim>\<open>is_provided\<close> operation evaluates to false when the column
  slot is bound to \<^verbatim>\<open>None\<close>, and otherwise to true or to the result of the format
  test. The code does not: the first operand of \<^verbatim>\<open>is_provided\<close> is the name of the
  column, a string, and \<^verbatim>\<open>evaluate\<close> starts by calling \<^verbatim>\<open>evaluate\<close> on every operand;
  so the evaluation raises \<^verbatim>\<open>AttributeError\<close> whatever the analysis, the dataset and
  the other operands are.
\<close>

theorem is_provided_raises:
  "evaluate opm analysis dataset (Operation ''is_provided'' (StrObj column_name # others)) =
     Inl (AttributeError ''evaluate'')"
  by simp

lemma is_provided_unbound_raises:
  "getattr D_default ''out'' = Inr (Plain NoneObj) \<and>
   evaluate opm D_default t1w_dataset (Operation ''is_provided'' [StrObj ''out'']) =
     Inl (AttributeError ''evaluate'')"
  by (simp add: D_default_def)

subsection \<open>Parameters\<close>

text \<open>
  Claim C9. The validator of a parameter accepts a value exactly when it is one of the
  declared choices, or, for a parameter without choices, when it lies in the closed
  interval of the declared bounds (a bound that is not declared does not restrict; a
  value that is not a number raises \<^verbatim>\<open>TypeError\<close> when a bound is declared); every
  other value raises an error. The check runs on every assignment to the parameter
  of an analysis instance: the assignment stores the value only when the validator
  accepts it.
\<close>

theorem parameter_validator_on_every_write:
  "(choices attr = Some cs \<longrightarrow>
      parameter_validator attr val =
        (if val \<in> Plain ` set cs then Inr ()
         else Inl (ValueError (InvalidChoice (Parameter.name attr))))) \<and>
   (choices attr = None \<longrightarrow>
      parameter_validator attr (Plain (IntObj i)) =
        (if (case lower_bound attr of None \<Rightarrow> True | Some lb \<Rightarrow> lb \<le> i) \<and>
            (case upper_bound attr of None \<Rightarrow> True | Some ub \<Rightarrow> i \<le> ub)
         then Inr ()
         else Inl (ValueError (OutOfBounds (Parameter.name attr))))) \<and>
   (choices attr = None \<and> (lower_bound attr \<noteq> None \<or> upper_bound attr \<noteq> None) \<and>
    (\<forall>j. val \<noteq> Plain (IntObj j)) \<longrightarrow>
      isl (parameter_validator attr val)) \<and>
   (find (\<lambda>p. Parameter.name p = n) (AnalysisSpec.parameters sp) = Some attr \<and>
    n \<in> set (map fst attrs) \<longrightarrow>
      setattr (Analysis sp attrs) n val =
        (case parameter_validator attr val of
           Inl e \<Rightarrow> Inl e
         | Inr _ \<Rightarrow> Inr (Analysis sp (assign n val attrs))))"
proof (intro conjI impI)
  assume "choices attr = Some cs"
  then show "parameter_validator attr val =
        (if val \<in> Plain ` set cs then Inr ()
         else Inl (ValueError (InvalidChoice (Parameter.name attr))))"
    by (simp add: parameter_validator_def)
next
  assume "choices attr = None"
  then show "parameter_validator attr (Plain (IntObj i)) =
        (if (case lower_bound attr of None \<Rightarrow> True | Some lb \<Rightarrow> lb \<le> i) \<and>
            (case upper_bound attr of None \<Rightarrow> True | Some ub \<Rightarrow> i \<le> ub)
         then Inr ()
         else Inl (ValueError (OutOfBounds (Parameter.name attr))))"
    by (simp add: parameter_validator_def py_ge_def py_le_def split: option.splits)
next
  assume "choices attr = None \<and> (lower_bound attr \<noteq> None \<or> upper_bound attr \<noteq> None) \<and>
    (\<forall>j. val \<noteq> Plain (IntObj j))"
  then show "isl (parameter_validator attr val)"
    by (auto simp: parameter_validator_def py_ge_def py_le_def
             split: option.splits object.splits pyobj.splits)
next
  assume "find (\<lambda>p. Parameter.name p = n) (AnalysisSpec.parameters sp) = Some attr \<and>
    n \<in> set (map fst attrs)"
  then show "setattr (Analysis sp attrs) n val =
        (case parameter_validator attr val of
           Inl e \<Rightarrow> Inl e
         | Inr _ \<Rightarrow> Inr (Analysis sp (assign n val attrs)))"
    by (simp del: set_map)
qed

theorem parameter_validator_on_every_write_witness:
  "parameter_validator T_level (Plain (IntObj 7)) = Inr () \<and>
   parameter_validator T_level (Plain (IntObj 11)) = Inl (ValueError (OutOfBounds ''level'')) \<and>
   isl (parameter_validator T_level (Plain (StrObj ''high''))) \<and>
   parameter_validator D_mode (Plain (StrObj ''fast'')) = Inr () \<and>
   parameter_validator D_mode (Plain (StrObj ''medium'')) = Inl (ValueError (InvalidChoice ''mode'')) \<and>
   setattr T_instance ''level'' (Plain (IntObj 7)) =
     Inr (Analysis T_spec [(''level'', Plain (IntObj 7)), (''mode'', Plain (StrObj ''slow''))]) \<and>
   setattr T_instance ''level'' (Plain (IntObj 11)) = Inl (ValueError (OutOfBounds ''level''))"
proof -
  have level: "choices T_level = None" "lower_bound T_level = Some 0"
    "upper_bound T_level = Some 10" "Parameter.name T_level = ''level''"
    by (simp_all add: T_level_def)
  have mode: "choices D_mode = Some [StrObj ''fast'', StrObj ''slow'']"
    "Parameter.name D_mode = ''mode''"
    by (simp_all add: D_mode_def)
  have declared:
    "find (\<lambda>p. Parameter.name p = ''level'') (AnalysisSpec.parameters T_spec) = Some T_level \<and>
     ''level'' \<in> set (map fst [(''level'', Plain (IntObj 5)), (''mode'', Plain (StrObj ''slow''))])"
    by (simp add: T_spec_def level)
  have v7: "parameter_validator T_level (Plain (IntObj 7)) = Inr ()"
    using parameter_validator_on_every_write [where attr = T_level and i = 7] level by simp
  have v11: "parameter_validator T_level (Plain (IntObj 11)) = Inl (ValueError (OutOfBounds ''level''))"
    using parameter_validator_on_every_write [where attr = T_level and i = 11] level by simp
  have vs: "isl (parameter_validator T_level (Plain (StrObj ''high'')))"
    using parameter_validator_on_every_write
      [where attr = T_level and val = "Plain (StrObj ''high'')"] level by simp
  have fast: "parameter_validator D_mode (Plain (StrObj ''fast'')) = Inr ()"
    using parameter_validator_on_every_write
      [where attr = D_mode and val = "Plain (StrObj ''fast'')"] mode by simp
  have medium: "parameter_validator D_mode (Plain (StrObj ''medium'')) =
      Inl (ValueError (InvalidChoice ''mode''))"
    using parameter_validator_on_every_write
      [where attr = D_mode and val = "Plain (StrObj ''medium'')"] mode by simp
  have s7: "setattr T_instance ''level'' (Plain (IntObj 7)) =
     Inr (Analysis T_spec [(''level'', Plain (IntObj 7)), (''mode'', Plain (StrObj ''slow''))])"
    unfolding T_instance_def
    using parameter_validator_on_every_write
      [where attr = T_level and n = "''level''" and sp = T_spec and val = "Plain (IntObj 7)"
         and attrs = "[(''level'', Plain (IntObj 5)), (''mode'', Plain (StrObj ''slow''))]"]
      declared v7
    by simp
  have s11: "setattr T_instance ''level'' (Plain (IntObj 11)) = Inl (ValueError (OutOfBounds ''level''))"
    unfolding T_instance_def
    using parameter_validator_on_every_write
      [where attr = T_level and n = "''level''" and sp = T_spec and val = "Plain (IntObj 11)"
         and attrs = "[(''level'', Plain (IntObj 5)), (''mode'', Plain (StrObj ''slow''))]"]
      declared v11
    by simp
  from v7 v11 vs fast medium s7 s11 show ?thesis by simp
qed

subsection \<open>Validation of an \<^verbatim>\<open>AnalysisSpec\<close>\<close>

lemma map_of_dict_append:
  "map_of (dict_append k v d) k' =
     (if k' = k then Some ((case map_of d k of None \<Rightarrow> [] | Some vs \<Rightarrow> vs) @ [v])
      else map_of d k')"
  by (induction d) (auto split: option.splits)

lemma keys_dict_append:
  "map fst (dict_append k v d) = (if k \<in> set (map fst d) then map fst d else map fst d @ [k])"
  by (induction d) (auto split: if_splits)

lemma distinct_dict_append:
  "distinct (map fst d) \<Longrightarrow> distinct (map fst (dict_append k v d))"
  by (simp only: keys_dict_append split: if_splits) simp

lemma map_of_grouped:
  "map_of (foldl (\<lambda>d p. if P p then dict_append (key p) p d else d) d0 pbs) k =
     (case map_of d0 k of
        None \<Rightarrow> (if filter (\<lambda>p. P p \<and> key p = k) pbs = [] then None
                 else Some (filter (\<lambda>p. P p \<and> key p = k) pbs))
      | Some vs \<Rightarrow> Some (vs @ filter (\<lambda>p. P p \<and> key p = k) pbs))"
proof (induction pbs arbitrary: d0)
  case Nil
  then show ?case by (simp split: option.splits)
next
  case (Cons p pbs)
  show ?case
    by (simp add: Cons.IH map_of_dict_append split: option.splits)
qed

lemma distinct_grouped:
  "distinct (map fst d0) \<Longrightarrow>
   distinct (map fst (foldl (\<lambda>d p. if P p then dict_append (key p) p d else d) d0 pbs))"
  by (induction pbs arbitrary: d0) (simp_all add: distinct_dict_append)

lemma sorted_by_cond_mem:
  "((cond, sw), g) \<in> set (sorted_by_cond pbs c) \<longleftrightarrow>
     g = filter (\<lambda>p. ColumnSpec.name c \<in> set (outputs p) \<and> condition p = cond \<and> switch p = sw) pbs \<and>
     g \<noteq> []"
proof -
  have d: "distinct (map fst (sorted_by_cond pbs c))"
    unfolding sorted_by_cond_def by (rule distinct_grouped) simp
  have "((cond, sw), g) \<in> set (sorted_by_cond pbs c) \<longleftrightarrow>
        map_of (sorted_by_cond pbs c) (cond, sw) = Some g"
    using d by simp
  also have "\<dots> \<longleftrightarrow> g = filter (\<lambda>p. ColumnSpec.name c \<in> set (outputs p) \<and>
                               condition p = cond \<and> switch p = sw) pbs \<and> g \<noteq> []"
    unfolding sorted_by_cond_def map_of_grouped by auto
  finally show ?thesis .
qed

lemma sorted_by_cond_empty:
  "sorted_by_cond pbs c = [] \<longleftrightarrow> (\<forall>p\<in>set pbs. ColumnSpec.name c \<notin> set (outputs p))"
proof
  assume e: "sorted_by_cond pbs c = []"
  show "\<forall>p\<in>set pbs. ColumnSpec.name c \<notin> set (outputs p)"
  proof (intro ballI notI)
    fix p assume p: "p \<in> set pbs" "ColumnSpec.name c \<in> set (outputs p)"
    let ?g = "filter (\<lambda>q. ColumnSpec.name c \<in> set (outputs q) \<and>
                 condition q = condition p \<and> switch q = switch p) pbs"
    from p have "p \<in> set ?g" by simp
    then have "?g \<noteq> []" by (metis empty_iff empty_set)
    then have "((condition p, switch p), ?g) \<in> set (sorted_by_cond pbs c)"
      by (simp only: sorted_by_cond_mem) simp
    with e show False by simp
  qed
next
  assume none: "\<forall>p\<in>set pbs. ColumnSpec.name c \<notin> set (outputs p)"
  show "sorted_by_cond pbs c = []"
  proof (rule ccontr)
    assume "sorted_by_cond pbs c \<noteq> []"
    then obtain cond sw g where "((cond, sw), g) \<in> set (sorted_by_cond pbs c)"
      by (cases "sorted_by_cond pbs c") auto
    then have "filter (\<lambda>p. ColumnSpec.name c \<in> set (outputs p) \<and>
                  condition p = cond \<and> switch p = sw) pbs \<noteq> []"
      unfolding sorted_by_cond_mem by blast
    with none show False by (auto simp: filter_empty_conv)
  qed
qed

lemma duplicated_empty:
  "filter (\<lambda>(k, g). length g > 1) (sorted_by_cond pbs c) = [] \<longleftrightarrow>
     (\<forall>cond sw. length (filter (\<lambda>p. ColumnSpec.name c \<in> set (outputs p) \<and>
                               condition p = cond \<and> switch p = sw) pbs) \<le> 1)"
proof
  assume e: "filter (\<lambda>(k, g). length g > 1) (sorted_by_cond pbs c) = []"
  show "\<forall>cond sw. length (filter (\<lambda>p. ColumnSpec.name c \<in> set (outputs p) \<and>
                               condition p = cond \<and> switch p = sw) pbs) \<le> 1"
  proof (intro allI)
    fix cond sw
    let ?g = "filter (\<lambda>p. ColumnSpec.name c \<in> set (outputs p) \<and>
                 condition p = cond \<and> switch p = sw) pbs"
    show "length ?g \<le> 1"
    proof (cases "?g = []")
      case True
      then show ?thesis by simp
    next
      case False
      then have "((cond, sw), ?g) \<in> set (sorted_by_cond pbs c)"
        by (simp only: sorted_by_cond_mem) simp
      with e have "\<not> length ?g > 1"
        unfolding filter_empty_conv by fastforce
      then show ?thesis by simp
    qed
  qed
next
  assume a: "\<forall>cond sw. length (filter (\<lambda>p. ColumnSpec.name c \<in> set (outputs p) \<and>
                               condition p = cond \<and> switch p = sw) pbs) \<le> 1"
  show "filter (\<lambda>(k, g). length g > 1) (sorted_by_cond pbs c) = []"
    unfolding filter_empty_conv
  proof (intro ballI)
    fix e assume m: "e \<in> set (sorted_by_cond pbs c)"
    obtain cond sw g where e: "e = ((cond, sw), g)" by (cases e) auto
    with m have "g = filter (\<lambda>p. ColumnSpec.name c \<in> set (outputs p) \<and>
                       condition p = cond \<and> switch p = sw) pbs"
      by (simp add: sorted_by_cond_mem)
    with a have "length g \<le> 1" by blast
    with e show "\<not> (case e of (k, g) \<Rightarrow> length g > 1)" by simp
  qed
qed

lemma validate_column_spec_cases:
  "validate_column_spec level pbs c =
     (if \<not> (\<forall>cond sw. length (filter (\<lambda>p. ColumnSpec.name c \<in> set (outputs p) \<and>
                                     condition p = cond \<and> switch p = sw) pbs) \<le> 1) then
        Inl (ArcanaDesignError (MatchingConditions (ColumnSpec.name c)
               (filter (\<lambda>(k, g). length g > 1) (sorted_by_cond pbs c))))
      else if (\<forall>p\<in>set pbs. ColumnSpec.name c \<notin> set (outputs p)) \<and>
              ColumnSpec.mapped_from c = None then
        (if \<forall>p\<in>set pbs. ColumnSpec.name c \<notin> set (PipelineBuilder.inputs p) then
           Inl (ArcanaDesignError (NeitherInputNorOutput (ColumnSpec.name c)))
         else if level (ColumnSpec.salience c) \<le> level publication then
           Inl (ArcanaDesignError (NotGenerated (ColumnSpec.name c)))
         else Inr ())
      else Inr ())"
  unfolding validate_column_spec_def Let_def duplicated_empty sorted_by_cond_empty
  by (simp add: filter_empty_conv)

lemma column_specs_validator_Inr:
  "column_specs_validator level pbs cols = Inr () \<longleftrightarrow>
     (\<forall>c\<in>set cols. validate_column_spec level pbs c = Inr ())"
  by (induction cols) (auto split: sum.splits)

lemma and_then_Inr: "and_then r k = Inr x \<longleftrightarrow> r = Inr () \<and> k = Inr x"
  by (cases r) (auto simp: and_then_def)

lemma AnalysisSpec_init_Inr:
  "AnalysisSpec_init level s = Inr s' \<Longrightarrow>
     s' = s \<and> column_specs_validator level (pipeline_builders s) (column_specs s) = Inr () \<and>
     pipeline_builders_validator (map ColumnSpec.name (column_specs s)) (pipeline_builders s) = Inr ()"
  by (auto simp: AnalysisSpec_init_def and_then_Inr)

lemma pipeline_builders_validator_Inr:
  "pipeline_builders_validator names pbs = Inr () \<longleftrightarrow>
     (\<forall>p\<in>set pbs. set (outputs p) \<subseteq> set names)"
  by (induction pbs) (auto simp: Let_def filter_empty_conv)


lemma two_in_filter:
  assumes "i < j" "j < length xs" "P (xs ! i)" "P (xs ! j)"
  shows "length (filter P xs) > 1"
proof -
  have xs: "xs = take j xs @ xs ! j # drop (Suc j) xs"
    using assms(2) by (rule id_take_nth_drop)
  have "xs ! i \<in> set (take j xs)"
    using assms(1,2) by (auto simp: in_set_conv_nth intro!: exI[of _ i])
  with assms(3) have "filter P (take j xs) \<noteq> []"
    by (auto simp: filter_empty_conv)
  then have before: "length (filter P (take j xs)) \<ge> 1"
    by (cases "filter P (take j xs)") auto
  have at: "length (filter P (xs ! j # drop (Suc j) xs)) \<ge> 1"
    using assms(4) by simp
  have "length (filter P xs) =
      length (filter P (take j xs)) + length (filter P (xs ! j # drop (Suc j) xs))"
    by (subst xs) (simp only: filter_append length_append)
  with before at show ?thesis by linarith
qed

lemma column_specs_validator_first_failure:
  "\<forall>c'\<in>set pre. validate_column_spec level pbs c' = Inr () \<Longrightarrow>
   validate_column_spec level pbs c = Inl e \<Longrightarrow>
   column_specs_validator level pbs (pre @ c # post) = Inl e"
  by (induction pre) auto

lemma AnalysisSpec_init_column_failure:
  "unique_names ColumnSpec.name (column_specs s) = Inr () \<Longrightarrow>
   column_specs_validator level (pipeline_builders s) (column_specs s) = Inl e \<Longrightarrow>
   AnalysisSpec_init level s = Inl e"
  by (simp add: AnalysisSpec_init_def and_then_def)

lemma not_Inr_isl: "(\<forall>x. r \<noteq> Inr x) \<Longrightarrow> isl r"
  by (cases r) auto

text \<open>
  Claim C5. In every \<^verbatim>\<open>AnalysisSpec\<close> that was constructed, for every column and
  every pair of a condition and a switch, at most one builder produces the column
  under that pair. If two builders, at different places of the tuple, produce a
  common column under the same pair, the construction fails; the check of that
  column raises the diagnostic that lists the groups of more than one builder, the
  two builders among them; and it is the error of the construction when the names of
  the columns are unique and the columns before it pass their checks.
\<close>

theorem no_ambiguous_builders:
  "(AnalysisSpec_init level s = Inr s' \<longrightarrow>
      (\<forall>c\<in>set (column_specs s'). \<forall>cond sw.
          length (filter (\<lambda>p. ColumnSpec.name c \<in> set (outputs p) \<and>
                               condition p = cond \<and> switch p = sw) (pipeline_builders s')) \<le> 1)) \<and>
   (i < j \<and> j < length (pipeline_builders s) \<and>
    out \<in> set (outputs (pipeline_builders s ! i)) \<and>
    out \<in> set (outputs (pipeline_builders s ! j)) \<and>
    condition (pipeline_builders s ! i) = condition (pipeline_builders s ! j) \<and>
    switch (pipeline_builders s ! i) = switch (pipeline_builders s ! j) \<longrightarrow>
      isl (AnalysisSpec_init level s) \<and>
      (\<forall>c. ColumnSpec.name c = out \<longrightarrow>
         (\<exists>dups g. validate_column_spec level (pipeline_builders s) c =
                      Inl (ArcanaDesignError (MatchingConditions out dups)) \<and>
                    ((condition (pipeline_builders s ! i), switch (pipeline_builders s ! i)), g)
                      \<in> set dups \<and>
                    pipeline_builders s ! i \<in> set g \<and> pipeline_builders s ! j \<in> set g))) \<and>
   (unique_names ColumnSpec.name (column_specs s) = Inr () \<and>
    column_specs s = pre @ c # post \<and>
    (\<forall>c'\<in>set pre. validate_column_spec level (pipeline_builders s) c' = Inr ()) \<and>
    validate_column_spec level (pipeline_builders s) c = Inl e \<longrightarrow>
      AnalysisSpec_init level s = Inl e)"
proof (intro conjI impI)
  assume ok: "AnalysisSpec_init level s = Inr s'"
  then have s': "s' = s"
    and cols: "column_specs_validator level (pipeline_builders s) (column_specs s) = Inr ()"
    using AnalysisSpec_init_Inr by blast+
  show "\<forall>c\<in>set (column_specs s'). \<forall>cond sw.
          length (filter (\<lambda>p. ColumnSpec.name c \<in> set (outputs p) \<and>
                               condition p = cond \<and> switch p = sw) (pipeline_builders s')) \<le> 1"
  proof (intro ballI)
    fix c assume "c \<in> set (column_specs s')"
    with s' cols have v: "validate_column_spec level (pipeline_builders s) c = Inr ()"
      by (simp add: column_specs_validator_Inr)
    show "\<forall>cond sw. length (filter (\<lambda>p. ColumnSpec.name c \<in> set (outputs p) \<and>
                               condition p = cond \<and> switch p = sw) (pipeline_builders s')) \<le> 1"
    proof (rule ccontr)
      assume "\<not> ?thesis"
      with s' have "isl (validate_column_spec level (pipeline_builders s) c)"
        by (subst validate_column_spec_cases) simp
      with v show False by simp
    qed
  qed
next
  let ?pbs = "pipeline_builders s"
  let ?a = "?pbs ! i" and ?b = "?pbs ! j"
  assume h: "i < j \<and> j < length ?pbs \<and> out \<in> set (outputs ?a) \<and> out \<in> set (outputs ?b) \<and>
    condition ?a = condition ?b \<and> switch ?a = switch ?b"
  have diag: "\<exists>dups g. validate_column_spec level ?pbs c =
                      Inl (ArcanaDesignError (MatchingConditions out dups)) \<and>
                    ((condition ?a, switch ?a), g) \<in> set dups \<and> ?a \<in> set g \<and> ?b \<in> set g"
    if c: "ColumnSpec.name c = out" for c
  proof -
    let ?P = "\<lambda>p. ColumnSpec.name c \<in> set (outputs p) \<and>
                   condition p = condition ?a \<and> switch p = switch ?a"
    let ?g = "filter ?P ?pbs"
    let ?dups = "filter (\<lambda>(k, g). length g > 1) (sorted_by_cond ?pbs c)"
    from h c have len: "length ?g > 1"
      by (intro two_in_filter[of i j]) simp_all
    then have ne: "?g \<noteq> []" by auto
    have "\<not> (\<forall>cond sw. length (filter (\<lambda>p. ColumnSpec.name c \<in> set (outputs p) \<and>
                               condition p = cond \<and> switch p = sw) ?pbs) \<le> 1)"
      using len by (auto intro!: exI[of _ "condition ?a"] exI[of _ "switch ?a"])
    then have v: "validate_column_spec level ?pbs c =
        Inl (ArcanaDesignError (MatchingConditions out ?dups))"
      using c by (subst validate_column_spec_cases) simp
    from ne have "((condition ?a, switch ?a), ?g) \<in> set (sorted_by_cond ?pbs c)"
      by (simp only: sorted_by_cond_mem) simp
    with len have m: "((condition ?a, switch ?a), ?g) \<in> set ?dups" by simp
    from h c have "?a \<in> set ?g" "?b \<in> set ?g" by simp_all
    with v m show ?thesis by blast
  qed
  then show "\<forall>c. ColumnSpec.name c = out \<longrightarrow>
         (\<exists>dups g. validate_column_spec level ?pbs c =
                      Inl (ArcanaDesignError (MatchingConditions out dups)) \<and>
                    ((condition ?a, switch ?a), g) \<in> set dups \<and> ?a \<in> set g \<and> ?b \<in> set g)"
    by blast
  show "isl (AnalysisSpec_init level s)"
  proof (rule not_Inr_isl, intro allI notI)
    fix x assume ok: "AnalysisSpec_init level s = Inr x"
    then have cols: "column_specs_validator level ?pbs (column_specs s) = Inr ()"
      and outs: "pipeline_builders_validator (map ColumnSpec.name (column_specs s)) ?pbs = Inr ()"
      using AnalysisSpec_init_Inr by blast+
    from h have "?a \<in> set ?pbs" by simp
    with outs h have "out \<in> set (map ColumnSpec.name (column_specs s))"
      unfolding pipeline_builders_validator_Inr by blast
    then obtain c where c: "c \<in> set (column_specs s)" "ColumnSpec.name c = out" by auto
    from diag[OF c(2)] have "isl (validate_column_spec level ?pbs c)" by auto
    moreover from cols c(1) have "validate_column_spec level ?pbs c = Inr ()"
      by (simp add: column_specs_validator_Inr)
    ultimately show False by simp
  qed
next
  assume "unique_names ColumnSpec.name (column_specs s) = Inr () \<and>
    column_specs s = pre @ c # post \<and>
    (\<forall>c'\<in>set pre. validate_column_spec level (pipeline_builders s) c' = Inr ()) \<and>
    validate_column_spec level (pipeline_builders s) c = Inl e"
  then show "AnalysisSpec_init level s = Inl e"
    using column_specs_validator_first_failure AnalysisSpec_init_column_failure by metis
qed


lemma D_spec_valid: "AnalysisSpec_init salience_level D_spec = Inr D_spec"
  by (simp add: AnalysisSpec_init_def and_then_def unique_names_def validate_column_spec_def
      sorted_by_cond_def D_spec_def D_out_def D_src_def D_mode_def B1_def B2_def mode_is_fast_def)

lemma D_ambiguous_out:
  "validate_column_spec level (pipeline_builders D_ambiguous_spec) D_out =
     Inl (ArcanaDesignError (MatchingConditions ''out'' [((NoneObj, None), [B2, B3])]))"
  by (simp add: validate_column_spec_def sorted_by_cond_def D_ambiguous_spec_def D_spec_def
      D_out_def B1_def B2_def B3_def mode_is_fast_def)

theorem no_ambiguous_builders_witness:
  "AnalysisSpec_init salience_level D_spec = Inr D_spec \<and>
   length (filter (\<lambda>p. ''out'' \<in> set (outputs p) \<and> condition p = NoneObj \<and> switch p = None)
             (pipeline_builders D_spec)) \<le> 1 \<and>
   isl (AnalysisSpec_init salience_level D_ambiguous_spec) \<and>
   AnalysisSpec_init salience_level D_ambiguous_spec =
     Inl (ArcanaDesignError (MatchingConditions ''out'' [((NoneObj, None), [B2, B3])]))"
proof -
  note inst = no_ambiguous_builders [where level = salience_level]
  have out: "D_out \<in> set (column_specs D_spec)" "ColumnSpec.name D_out = ''out''"
    by (simp_all add: D_spec_def D_out_def)
  from inst [where s = D_spec and s' = D_spec, THEN conjunct1, THEN mp, OF D_spec_valid,
            THEN bspec, OF out(1)] out(2)
  have one: "length (filter (\<lambda>p. ''out'' \<in> set (outputs p) \<and> condition p = NoneObj \<and>
                 switch p = None) (pipeline_builders D_spec)) \<le> 1"
    by simp
  have shared: "(1::nat) < 2 \<and> 2 < length (pipeline_builders D_ambiguous_spec) \<and>
    ''out'' \<in> set (outputs (pipeline_builders D_ambiguous_spec ! 1)) \<and>
    ''out'' \<in> set (outputs (pipeline_builders D_ambiguous_spec ! 2)) \<and>
    condition (pipeline_builders D_ambiguous_spec ! 1) =
      condition (pipeline_builders D_ambiguous_spec ! 2) \<and>
    switch (pipeline_builders D_ambiguous_spec ! 1) =
      switch (pipeline_builders D_ambiguous_spec ! 2)"
    by (simp add: D_ambiguous_spec_def B2_def B3_def)
  from inst [where s = D_ambiguous_spec and i = 1 and j = 2 and out = "''out''",
            THEN conjunct2, THEN conjunct1, THEN mp, OF shared]
  have fails: "isl (AnalysisSpec_init salience_level D_ambiguous_spec)" by simp
  have first: "unique_names ColumnSpec.name (column_specs D_ambiguous_spec) = Inr () \<and>
    column_specs D_ambiguous_spec = [] @ D_out # [D_src] \<and>
    (\<forall>c'\<in>set []. validate_column_spec salience_level (pipeline_builders D_ambiguous_spec) c' = Inr ()) \<and>
    validate_column_spec salience_level (pipeline_builders D_ambiguous_spec) D_out =
      Inl (ArcanaDesignError (MatchingConditions ''out'' [((NoneObj, None), [B2, B3])]))"
    by (simp add: D_ambiguous_out)
       (simp add: unique_names_def D_ambiguous_spec_def D_spec_def D_out_def D_src_def)
  from inst [where s = D_ambiguous_spec, THEN conjunct2, THEN conjunct2, THEN mp, OF first]
  have exact: "AnalysisSpec_init salience_level D_ambiguous_spec =
     Inl (ArcanaDesignError (MatchingConditions ''out'' [((NoneObj, None), [B2, B3])]))" .
  from D_spec_valid one fails exact show ?thesis by simp
qed


text \<open>
  Claim C3, amended. For a column that no builder produces and that is not mapped from
  a subanalysis, the check fails when no builder reads the column, and otherwise
  fails with the orphaned-column error when the level of its salience is at most that
  of \<^verbatim>\<open>publication\<close>; it passes only when a builder reads the column and its salience
  is above \<^verbatim>\<open>publication\<close>. A spec with a column that fails is not constructed, and
  in a constructed spec every such column is read by a builder and above
  \<^verbatim>\<open>publication\<close>.
\<close>

theorem orphaned_column_check:
  "((\<forall>p\<in>set pbs. ColumnSpec.name c \<notin> set (outputs p)) \<and> ColumnSpec.mapped_from c = None \<longrightarrow>
      validate_column_spec level pbs c =
        (if \<forall>p\<in>set pbs. ColumnSpec.name c \<notin> set (PipelineBuilder.inputs p) then
           Inl (ArcanaDesignError (NeitherInputNorOutput (ColumnSpec.name c)))
         else if level (ColumnSpec.salience c) \<le> level publication then
           Inl (ArcanaDesignError (NotGenerated (ColumnSpec.name c)))
         else Inr ())) \<and>
   (c \<in> set (column_specs s) \<and>
    (\<forall>p\<in>set (pipeline_builders s). ColumnSpec.name c \<notin> set (outputs p)) \<and>
    ColumnSpec.mapped_from c = None \<and>
    ((\<forall>p\<in>set (pipeline_builders s). ColumnSpec.name c \<notin> set (PipelineBuilder.inputs p)) \<or>
     level (ColumnSpec.salience c) \<le> level publication) \<longrightarrow>
      isl (AnalysisSpec_init level s)) \<and>
   (AnalysisSpec_init level s = Inr s' \<and> c \<in> set (column_specs s) \<and>
    (\<forall>p\<in>set (pipeline_builders s). ColumnSpec.name c \<notin> set (outputs p)) \<and>
    ColumnSpec.mapped_from c = None \<longrightarrow>
      (\<exists>p\<in>set (pipeline_builders s). ColumnSpec.name c \<in> set (PipelineBuilder.inputs p)) \<and>
      level publication < level (ColumnSpec.salience c))"
proof -
  have orphan: "validate_column_spec level pbs c =
        (if \<forall>p\<in>set pbs. ColumnSpec.name c \<notin> set (PipelineBuilder.inputs p) then
           Inl (ArcanaDesignError (NeitherInputNorOutput (ColumnSpec.name c)))
         else if level (ColumnSpec.salience c) \<le> level publication then
           Inl (ArcanaDesignError (NotGenerated (ColumnSpec.name c)))
         else Inr ())"
    if none: "\<forall>p\<in>set pbs. ColumnSpec.name c \<notin> set (outputs p)"
      and unmapped: "ColumnSpec.mapped_from c = None" for pbs
  proof -
    from none have "filter (\<lambda>p. ColumnSpec.name c \<in> set (outputs p) \<and>
                        condition p = cond \<and> switch p = sw) pbs = []" for cond sw
      by (auto simp: filter_empty_conv)
    with none unmapped show ?thesis
      by (subst validate_column_spec_cases) simp
  qed
  have passes: "(\<exists>p\<in>set (pipeline_builders s). ColumnSpec.name c \<in> set (PipelineBuilder.inputs p)) \<and>
      level publication < level (ColumnSpec.salience c)"
    if ok: "AnalysisSpec_init level s = Inr s'" and c: "c \<in> set (column_specs s)"
      and none: "\<forall>p\<in>set (pipeline_builders s). ColumnSpec.name c \<notin> set (outputs p)"
      and unmapped: "ColumnSpec.mapped_from c = None" for s'
  proof -
    from ok c have "validate_column_spec level (pipeline_builders s) c = Inr ()"
      using AnalysisSpec_init_Inr column_specs_validator_Inr by blast
    then show ?thesis
      unfolding orphan[OF none unmapped] by (auto split: if_splits)
  qed
  have fails: "isl (AnalysisSpec_init level s)"
    if c: "c \<in> set (column_specs s)"
      and none: "\<forall>p\<in>set (pipeline_builders s). ColumnSpec.name c \<notin> set (outputs p)"
      and unmapped: "ColumnSpec.mapped_from c = None"
      and bad: "(\<forall>p\<in>set (pipeline_builders s). ColumnSpec.name c \<notin> set (PipelineBuilder.inputs p)) \<or>
                level (ColumnSpec.salience c) \<le> level publication"
  proof (rule not_Inr_isl, intro allI notI)
    fix x assume "AnalysisSpec_init level s = Inr x"
    from passes[OF this c none unmapped] bad show False by auto
  qed
  from orphan passes fails show ?thesis by blast
qed

theorem orphaned_column_check_witness:
  "validate_column_spec salience_level (pipeline_builders D_spec) D_src = Inr () \<and>
   validate_column_spec salience_level (pipeline_builders D_spec) D_src_publication =
     Inl (ArcanaDesignError (NotGenerated ''src'')) \<and>
   validate_column_spec salience_level (pipeline_builders D_spec) D_aux =
     Inl (ArcanaDesignError (NeitherInputNorOutput ''aux'')) \<and>
   isl (AnalysisSpec_init salience_level D_publication_spec) \<and>
   salience_level publication < salience_level (ColumnSpec.salience D_src)"
proof -
  note inst = orphaned_column_check [where level = salience_level]
  have builders: "pipeline_builders D_spec = [B1, B2]"
    "pipeline_builders D_publication_spec = [B1, B2]"
    by (simp_all add: D_spec_def D_publication_spec_def)
  have io: "outputs B1 = [''out'']" "outputs B2 = [''out'']"
    "PipelineBuilder.inputs B1 = [''src'']" "PipelineBuilder.inputs B2 = [''src'']"
    by (simp_all add: B1_def B2_def)
  have cols: "ColumnSpec.name D_src = ''src''" "ColumnSpec.mapped_from D_src = None"
    "ColumnSpec.salience D_src = primary"
    "ColumnSpec.name D_src_publication = ''src''" "ColumnSpec.mapped_from D_src_publication = None"
    "ColumnSpec.salience D_src_publication = publication"
    "ColumnSpec.name D_aux = ''aux''" "ColumnSpec.mapped_from D_aux = None"
    by (simp_all add: D_src_def D_src_publication_def D_aux_def)
  have orphan: "(\<forall>p\<in>set (pipeline_builders D_spec). ColumnSpec.name c \<notin> set (outputs p)) \<and>
      ColumnSpec.mapped_from c = None"
    if "c \<in> {D_src, D_src_publication, D_aux}" for c
    using that by (auto simp: builders io cols)
  from inst [where pbs = "pipeline_builders D_spec" and c = D_src,
             THEN conjunct1, THEN mp, OF orphan]
  have w1: "validate_column_spec salience_level (pipeline_builders D_spec) D_src = Inr ()"
    by (simp add: builders io cols)
  from inst [where pbs = "pipeline_builders D_spec" and c = D_src_publication,
             THEN conjunct1, THEN mp, OF orphan]
  have w2: "validate_column_spec salience_level (pipeline_builders D_spec) D_src_publication =
     Inl (ArcanaDesignError (NotGenerated ''src''))"
    by (simp add: builders io cols)
  from inst [where pbs = "pipeline_builders D_spec" and c = D_aux,
             THEN conjunct1, THEN mp, OF orphan]
  have w3: "validate_column_spec salience_level (pipeline_builders D_spec) D_aux =
     Inl (ArcanaDesignError (NeitherInputNorOutput ''aux''))"
    by (simp add: builders io cols)
  have bad: "D_src_publication \<in> set (column_specs D_publication_spec) \<and>
    (\<forall>p\<in>set (pipeline_builders D_publication_spec).
        ColumnSpec.name D_src_publication \<notin> set (outputs p)) \<and>
    ColumnSpec.mapped_from D_src_publication = None \<and>
    ((\<forall>p\<in>set (pipeline_builders D_publication_spec).
        ColumnSpec.name D_src_publication \<notin> set (PipelineBuilder.inputs p)) \<or>
     salience_level (ColumnSpec.salience D_src_publication) \<le> salience_level publication)"
    by (simp add: builders io cols) (simp add: D_publication_spec_def)
  from inst [where s = D_publication_spec and c = D_src_publication,
             THEN conjunct2, THEN conjunct1, THEN mp, OF bad]
  have w4: "isl (AnalysisSpec_init salience_level D_publication_spec)" .
  have good: "AnalysisSpec_init salience_level D_spec = Inr D_spec \<and>
    D_src \<in> set (column_specs D_spec) \<and>
    (\<forall>p\<in>set (pipeline_builders D_spec). ColumnSpec.name D_src \<notin> set (outputs p)) \<and>
    ColumnSpec.mapped_from D_src = None"
    using D_spec_valid by (simp add: builders io cols) (simp add: D_spec_def)
  from inst [where s = D_spec and s' = D_spec and c = D_src,
             THEN conjunct2, THEN conjunct2, THEN mp, OF good]
  have w5: "salience_level publication < salience_level (ColumnSpec.salience D_src)"
    by simp
  from w1 w2 w3 w4 w5 show ?thesis by simp
qed

text \<open>
  The claim as stated fails at the salience \<^verbatim>\<open>publication\<close> itself, and at a primary
  column that no builder reads: \<open>D\<close> is constructed, and is not when \<open>src\<close> has the
  salience \<^verbatim>\<open>publication\<close> or when the primary column \<open>aux\<close> is added.
\<close>

theorem publication_column_counterexample:
  "AnalysisSpec_init salience_level D_spec = Inr D_spec \<and>
   ColumnSpec.salience D_src_publication = publication \<and>
   AnalysisSpec_init salience_level D_publication_spec =
     Inl (ArcanaDesignError (NotGenerated ''src'')) \<and>
   ColumnSpec.salience D_aux = primary \<and>
   AnalysisSpec_init salience_level D_unused_spec =
     Inl (ArcanaDesignError (NeitherInputNorOutput ''aux''))"
proof -
  have "AnalysisSpec_init salience_level D_publication_spec =
     Inl (ArcanaDesignError (NotGenerated ''src''))"
    by (simp add: AnalysisSpec_init_def and_then_def unique_names_def validate_column_spec_def
      sorted_by_cond_def D_publication_spec_def D_src_publication_def D_spec_def D_out_def
      D_src_def B1_def B2_def mode_is_fast_def)
  moreover have "AnalysisSpec_init salience_level D_unused_spec =
     Inl (ArcanaDesignError (NeitherInputNorOutput ''aux''))"
    by (simp add: AnalysisSpec_init_def and_then_def unique_names_def validate_column_spec_def
      sorted_by_cond_def D_unused_spec_def D_aux_def D_spec_def D_out_def
      D_src_def B1_def B2_def mode_is_fast_def)
  ultimately show ?thesis
    using D_spec_valid by (simp add: D_src_publication_def D_aux_def D_src_def)
qed

subsection \<open>Combining with the base classes\<close>






lemma set_extend_inherited:
  "set (extend_inherited nm lst base) \<subseteq> set lst \<union> set base"
  unfolding extend_inherited_def
proof (induction base arbitrary: lst)
  case Nil
  then show ?case by simp
next
  case (Cons b bs)
  have "set (foldl (\<lambda>l b. if nm b \<notin> set (map nm l) then l @ [b] else l)
              (if nm b \<notin> set (map nm lst) then lst @ [b] else lst) bs)
        \<subseteq> set (if nm b \<notin> set (map nm lst) then lst @ [b] else lst) \<union> set bs"
    by (rule Cons.IH)
  then show ?case by (auto split: if_splits)
qed










lemma inherit_attributes_Inr:
  "inherit_attributes kd nm lst base_lst = Inr r \<longleftrightarrow>
     overwritten kd (map nm base_lst) = [] \<and> r = extend_inherited nm lst base_lst"
  by (auto simp: inherit_attributes_def Let_def)













subsection \<open>The subanalysis wrapper\<close>

lemma find_fst_present:
  "n \<in> fst ` set xs \<Longrightarrow> \<exists>m. (n, m) \<in> set xs \<and> find (\<lambda>e. n = fst e) xs = Some (n, m)"
  by (induction xs) auto

lemma find_fst_absent: "n \<notin> fst ` set xs \<Longrightarrow> find (\<lambda>e. n = fst e) xs = None"
  by (induction xs) auto

lemma mapping_present:
  "n \<in> fst ` set (mappings sp) \<Longrightarrow>
   \<exists>m. (n, m) \<in> set (mappings sp) \<and> SubanalysisSpec_mapping sp n = Inr m"
  using find_fst_present[of n "mappings sp"] by (auto simp: SubanalysisSpec_mapping_def)

lemma mapping_absent:
  "n \<notin> fst ` set (mappings sp) \<Longrightarrow> SubanalysisSpec_mapping sp n = Inl (KeyError n)"
  by (simp add: SubanalysisSpec_mapping_def find_fst_absent)

text \<open>
  Claim C8, amended. The hook \<^verbatim>\<open>__getattr__\<close> of the wrapper returns the parent's
  attribute under the name of the first mapping when the name appears in the
  mappings of the subanalysis spec, and the nested analysis's attribute when it does
  not. A read on the wrapper reaches the hook exactly when the normal lookup finds
  nothing: when the name is none of the slots \<^verbatim>\<open>_spec\<close>, \<^verbatim>\<open>_analysis\<close> and \<^verbatim>\<open>_parent\<close>
  and no attribute of the class of the wrapper; a read of a slot returns the slot
  and a read of an attribute of the class returns that attribute. A write of a name
  other than the three slots raises \<^verbatim>\<open>AttributeError\<close> when the name is mapped and is
  the assignment to the nested analysis, with its outcome, when it is not; a write
  of a slot name rebinds the slot of the wrapper, mapped or not.
\<close>

theorem wrapper_redirects:
  "(n \<in> fst ` set (mappings sp) \<longrightarrow>
      (\<exists>m. (n, m) \<in> set (mappings sp) \<and> SubanalysisSpec_mapping sp n = Inr m \<and>
           Subanalysis_getattr (SubanalysisSpecObj sp) a p n = getattr p m)) \<and>
   (n \<notin> fst ` set (mappings sp) \<longrightarrow>
      Subanalysis_getattr (SubanalysisSpecObj sp) a p n = getattr a n) \<and>
   (n \<notin> {''_spec'', ''_analysis'', ''_parent''} \<and> map_of cls n = None \<longrightarrow>
      getattr (Subanalysis cls s a p) n = Subanalysis_getattr s a p n) \<and>
   (n \<notin> {''_spec'', ''_analysis'', ''_parent''} \<and> map_of cls n = Some w \<longrightarrow>
      getattr (Subanalysis cls s a p) n = Inr w) \<and>
   getattr (Subanalysis cls s a p) ''_spec'' = Inr s \<and>
   getattr (Subanalysis cls s a p) ''_analysis'' = Inr a \<and>
   getattr (Subanalysis cls s a p) ''_parent'' = Inr p \<and>
   (n \<notin> {''_spec'', ''_analysis'', ''_parent''} \<and> n \<in> fst ` set (mappings sp) \<longrightarrow>
      setattr (Subanalysis cls (SubanalysisSpecObj sp) a p) n v = Inl (AttributeError n)) \<and>
   (n \<notin> {''_spec'', ''_analysis'', ''_parent''} \<and> n \<notin> fst ` set (mappings sp) \<longrightarrow>
      setattr (Subanalysis cls (SubanalysisSpecObj sp) a p) n v =
        (case setattr a n v of
           Inl e \<Rightarrow> Inl e
         | Inr a' \<Rightarrow> Inr (Subanalysis cls (SubanalysisSpecObj sp) a' p))) \<and>
   setattr (Subanalysis cls s a p) ''_spec'' v = Inr (Subanalysis cls v a p) \<and>
   setattr (Subanalysis cls s a p) ''_analysis'' v = Inr (Subanalysis cls s v p) \<and>
   setattr (Subanalysis cls s a p) ''_parent'' v = Inr (Subanalysis cls s a v)"
proof (intro conjI impI)
  assume h: "n \<in> fst ` set (mappings sp)"
  then obtain m where m: "(n, m) \<in> set (mappings sp)" "SubanalysisSpec_mapping sp n = Inr m"
    using mapping_present by blast
  then show "\<exists>m. (n, m) \<in> set (mappings sp) \<and> SubanalysisSpec_mapping sp n = Inr m \<and>
           Subanalysis_getattr (SubanalysisSpecObj sp) a p n = getattr p m"
    by (intro exI[of _ m]) (simp add: slot_mapping_def)
next
  assume "n \<notin> fst ` set (mappings sp)"
  then have "SubanalysisSpec_mapping sp n = Inl (KeyError n)" by (rule mapping_absent)
  then show "Subanalysis_getattr (SubanalysisSpecObj sp) a p n = getattr a n"
    by (simp add: slot_mapping_def)
next
  assume "n \<notin> {''_spec'', ''_analysis'', ''_parent''} \<and> map_of cls n = None"
  then show "getattr (Subanalysis cls s a p) n = Subanalysis_getattr s a p n"
    by (simp del: Subanalysis_getattr.simps)
next
  assume "n \<notin> {''_spec'', ''_analysis'', ''_parent''} \<and> map_of cls n = Some w"
  then show "getattr (Subanalysis cls s a p) n = Inr w" by simp
next
  assume h: "n \<notin> {''_spec'', ''_analysis'', ''_parent''} \<and> n \<in> fst ` set (mappings sp)"
  then obtain m where "SubanalysisSpec_mapping sp n = Inr m"
    using mapping_present by blast
  with h show "setattr (Subanalysis cls (SubanalysisSpecObj sp) a p) n v = Inl (AttributeError n)"
    by (simp add: slot_mapping_def)
next
  assume h: "n \<notin> {''_spec'', ''_analysis'', ''_parent''} \<and> n \<notin> fst ` set (mappings sp)"
  then have "SubanalysisSpec_mapping sp n = Inl (KeyError n)" by (simp add: mapping_absent)
  with h show "setattr (Subanalysis cls (SubanalysisSpecObj sp) a p) n v =
        (case setattr a n v of
           Inl e \<Rightarrow> Inl e
         | Inr a' \<Rightarrow> Inr (Subanalysis cls (SubanalysisSpecObj sp) a' p))"
    by (simp add: slot_mapping_def)
qed simp_all


theorem wrapper_redirects_witness:
  "getattr P_wrapper ''inner'' = Inr (Plain (StrObj ''flair'')) \<and>
   setattr P_wrapper ''inner'' (Plain (StrObj ''t2w'')) = Inl (AttributeError ''inner'') \<and>
   getattr P_wrapper ''src'' = Inr (Plain (StrObj ''t1w'')) \<and>
   setattr P_wrapper ''src'' (Plain (StrObj ''t2w'')) =
     Inr (Subanalysis Subanalysis_class (SubanalysisSpecObj P_sub)
            (Analysis S_spec [(''inner'', Plain NoneObj), (''src'', Plain (StrObj ''t2w''))])
            (Analysis P_spec [(''c'', Plain (StrObj ''flair''))])) \<and>
   getattr P_wrapper ''__class__'' = Inr (Plain (ClassObj ''Subanalysis'' [''object'']))"
proof -
  let ?parent = "Analysis P_spec [(''c'', Plain (StrObj ''flair''))]"
  let ?s = "SubanalysisSpecObj P_sub"
  note inst = wrapper_redirects [where cls = Subanalysis_class and sp = P_sub and s = ?s
      and a = S_instance and p = ?parent and v = "Plain (StrObj ''t2w'')"]
  have maps: "mappings P_sub = [(''inner'', ''c'')]" by (simp add: P_sub_def)
  have hook: "''inner'' \<notin> {''_spec'', ''_analysis'', ''_parent''} \<and>
        map_of Subanalysis_class ''inner'' = None"
      "''src'' \<notin> {''_spec'', ''_analysis'', ''_parent''} \<and>
        map_of Subanalysis_class ''src'' = None"
    by (simp_all add: Subanalysis_class_def)
  have found: "''__class__'' \<notin> {''_spec'', ''_analysis'', ''_parent''} \<and>
      map_of Subanalysis_class ''__class__'' = Some (Plain (ClassObj ''Subanalysis'' [''object'']))"
    by (simp add: Subanalysis_class_def)
  have mapped: "''inner'' \<in> fst ` set (mappings P_sub)"
    and unmapped: "''src'' \<notin> fst ` set (mappings P_sub)"
    by (simp_all add: maps)
  have wmapped: "''inner'' \<notin> {''_spec'', ''_analysis'', ''_parent''} \<and>
      ''inner'' \<in> fst ` set (mappings P_sub)"
    and wunmapped: "''src'' \<notin> {''_spec'', ''_analysis'', ''_parent''} \<and>
      ''src'' \<notin> fst ` set (mappings P_sub)"
    by (simp_all add: maps)
  from inst [where n = "''inner''", THEN conjunct1, THEN mp, OF mapped]
  have h1: "Subanalysis_getattr ?s S_instance ?parent ''inner'' = getattr ?parent ''c''"
    by (auto simp: maps)
  from inst [where n = "''inner''", THEN conjunct2, THEN conjunct2, THEN conjunct1, THEN mp,
             OF hook(1)] h1
  have r1: "getattr P_wrapper ''inner'' = Inr (Plain (StrObj ''flair''))"
    by (simp add: P_wrapper_def)
  from inst [where n = "''src''", THEN conjunct2, THEN conjunct1, THEN mp, OF unmapped]
  have h2: "Subanalysis_getattr ?s S_instance ?parent ''src'' = getattr S_instance ''src''" .
  from inst [where n = "''src''", THEN conjunct2, THEN conjunct2, THEN conjunct1, THEN mp,
             OF hook(2)] h2
  have r2: "getattr P_wrapper ''src'' = Inr (Plain (StrObj ''t1w''))"
    by (simp add: P_wrapper_def S_instance_def)
  from inst [where n = "''__class__''" and w = "Plain (ClassObj ''Subanalysis'' [''object''])",
             THEN conjunct2, THEN conjunct2, THEN conjunct2, THEN conjunct1, THEN mp, OF found]
  have r3: "getattr P_wrapper ''__class__'' = Inr (Plain (ClassObj ''Subanalysis'' [''object'']))"
    by (simp add: P_wrapper_def)
  from inst [where n = "''inner''", THEN conjunct2, THEN conjunct2, THEN conjunct2,
      THEN conjunct2, THEN conjunct2, THEN conjunct2, THEN conjunct2, THEN conjunct1,
      THEN mp, OF wmapped]
  have w1: "setattr P_wrapper ''inner'' (Plain (StrObj ''t2w'')) = Inl (AttributeError ''inner'')"
    by (simp add: P_wrapper_def)
  from inst [where n = "''src''", THEN conjunct2, THEN conjunct2, THEN conjunct2,
      THEN conjunct2, THEN conjunct2, THEN conjunct2, THEN conjunct2, THEN conjunct2,
      THEN conjunct1, THEN mp, OF wunmapped]
  have w2: "setattr P_wrapper ''src'' (Plain (StrObj ''t2w'')) =
      (case setattr S_instance ''src'' (Plain (StrObj ''t2w'')) of
         Inl e \<Rightarrow> Inl e
       | Inr a' \<Rightarrow> Inr (Subanalysis Subanalysis_class ?s a' ?parent))"
    by (simp add: P_wrapper_def)
  have nested: "setattr S_instance ''src'' (Plain (StrObj ''t2w'')) =
       Inr (Analysis S_spec [(''inner'', Plain NoneObj), (''src'', Plain (StrObj ''t2w''))])"
    by (simp add: S_instance_def S_spec_def)
  show ?thesis
    by (simp add: r1 r2 r3 w1 w2 nested)
qed

text \<open>
  The claim as stated, for every name, fails at the names that the normal lookup
  finds. A write to the unmapped name \<^verbatim>\<open>_analysis\<close> rebinds the slot of the wrapper
  where the assignment to the nested analysis would raise, and a read returns the
  slot. In \<open>Q_sub\<close> the names \<^verbatim>\<open>_parent\<close> and \<^verbatim>\<open>__class__\<close> are mapped to \<open>c\<close>: a
  write to \<^verbatim>\<open>_parent\<close> raises nothing, a read of it returns the parent, and a read of
  \<^verbatim>\<open>__class__\<close> returns the class of the wrapper, not the parent's \<open>c\<close>.
\<close>

theorem wrapper_slots_counterexample:
  "''_analysis'' \<notin> fst ` set (mappings P_sub) \<and>
   setattr P_wrapper ''_analysis'' (Plain NoneObj) =
     Inr (Subanalysis Subanalysis_class (SubanalysisSpecObj P_sub) (Plain NoneObj)
            (Analysis P_spec [(''c'', Plain (StrObj ''flair''))])) \<and>
   setattr S_instance ''_analysis'' (Plain NoneObj) = Inl (AttributeError ''_analysis'') \<and>
   getattr P_wrapper ''_analysis'' = Inr S_instance \<and>
   getattr S_instance ''_analysis'' = Inl (AttributeError ''_analysis'') \<and>
   ''_parent'' \<in> fst ` set (mappings Q_sub) \<and>
   setattr Q_wrapper ''_parent'' (Plain NoneObj) =
     Inr (Subanalysis Subanalysis_class (SubanalysisSpecObj Q_sub) S_instance (Plain NoneObj)) \<and>
   getattr Q_wrapper ''_parent'' = Inr (Analysis P_spec [(''c'', Plain (StrObj ''flair''))]) \<and>
   ''__class__'' \<in> fst ` set (mappings Q_sub) \<and>
   SubanalysisSpec_mapping Q_sub ''__class__'' = Inr ''c'' \<and>
   getattr Q_wrapper ''__class__'' = Inr (Plain (ClassObj ''Subanalysis'' [''object''])) \<and>
   getattr (Analysis P_spec [(''c'', Plain (StrObj ''flair''))]) ''c'' = Inr (Plain (StrObj ''flair''))"
  by (simp add: P_wrapper_def Q_wrapper_def Q_sub_def P_sub_def S_instance_def
      Subanalysis_class_def SubanalysisSpec_mapping_def)

end
